theory Spec2Isabelle
  imports Main "HOL-Library.Sublist" "HOL-Library.Word"
begin

section \<open>Bytes, runes and the text functions the client calls\<close>

text \<open>
  A Go \<^verbatim>\<open>string\<close> and a \<^verbatim>\<open>[]byte\<close> are sequences of bytes; both are modelled as
  \<^typ>\<open>string\<close>, a list of 8-bit characters. \<open>byte c\<close> is the numeric value of a byte.
  A rune (a Unicode code point) is a natural number.
\<close>

abbreviation (input) byte :: "char \<Rightarrow> nat" where
  "byte c \<equiv> of_char c"

abbreviation (input) RuneError :: nat where "RuneError \<equiv> 0xFFFD"
abbreviation (input) RuneSelf :: nat where "RuneSelf \<equiv> 0x80"
abbreviation (input) MaxRune :: nat where "MaxRune \<equiv> 0x10FFFF"
abbreviation (input) MaxASCII :: nat where "MaxASCII \<equiv> 0x7F"
abbreviation (input) surrogateMin :: nat where "surrogateMin \<equiv> 0xD800"
abbreviation (input) surrogateMax :: nat where "surrogateMax \<equiv> 0xDFFF"
abbreviation (input) rune2Max :: nat where "rune2Max \<equiv> 0x7FF"
abbreviation (input) rune3Max :: nat where "rune3Max \<equiv> 0xFFFF"
abbreviation (input) locb :: nat where "locb \<equiv> 0x80"
abbreviation (input) hicb :: nat where "hicb \<equiv> 0xBF"

subsection \<open>Package unicode/utf8\<close>

text \<open>
  The table \<^verbatim>\<open>first\<close> of package utf8 classifies a leading byte: \<^verbatim>\<open>as\<close> (0xF0) is ASCII,
  \<^verbatim>\<open>xx\<close> (0xF1) is an illegal starter, and otherwise the low three bits are the length of
  the sequence and the high four bits index \<^verbatim>\<open>acceptRanges\<close>, the range allowed for the
  second byte.
\<close>

abbreviation (input) xx :: nat where "xx \<equiv> 0xF1"
abbreviation (input) as :: nat where "as \<equiv> 0xF0"
abbreviation (input) s1 :: nat where "s1 \<equiv> 0x02"
abbreviation (input) s2 :: nat where "s2 \<equiv> 0x13"
abbreviation (input) s3 :: nat where "s3 \<equiv> 0x03"
abbreviation (input) s4 :: nat where "s4 \<equiv> 0x23"
abbreviation (input) s5 :: nat where "s5 \<equiv> 0x34"
abbreviation (input) s6 :: nat where "s6 \<equiv> 0x04"
abbreviation (input) s7 :: nat where "s7 \<equiv> 0x44"

definition utf8_first :: "nat \<Rightarrow> nat" where
  "utf8_first b =
     (if b < 0x80 then as
      else if b < 0xC2 then xx
      else if b < 0xE0 then s1
      else if b = 0xE0 then s2
      else if b < 0xED then s3
      else if b = 0xED then s4
      else if b < 0xF0 then s3
      else if b = 0xF0 then s5
      else if b < 0xF4 then s6
      else if b = 0xF4 then s7
      else xx)"

definition acceptRanges :: "nat \<Rightarrow> nat \<times> nat" where
  "acceptRanges i =
     (if i = 0 then (locb, hicb)
      else if i = 1 then (0xA0, hicb)
      else if i = 2 then (locb, 0x9F)
      else if i = 3 then (0x90, hicb)
      else if i = 4 then (locb, 0x8F)
      else (0, 0))"

text \<open>
  \<^verbatim>\<open>utf8.DecodeRune\<close> (and \<^verbatim>\<open>DecodeRuneInString\<close>): the first rune of \<open>p\<close> and its width in
  bytes; \<open>(RuneError, 1)\<close> for a byte that starts no valid encoding, \<open>(RuneError, 0)\<close> for
  the empty input. Every index below is guarded by the length test that precedes it.
\<close>

definition utf8_DecodeRune :: "string \<Rightarrow> nat \<times> nat" where
  "utf8_DecodeRune p =
     (let n = length p in
      if n < 1 then (RuneError, 0)
      else
        let p0 = byte (p ! 0); x = utf8_first p0 in
        if x \<ge> as then ((if odd x then RuneError else p0), 1)
        else
          let sz = x mod 8; accept = acceptRanges (x div 16) in
          if n < sz then (RuneError, 1)
          else
            let b1 = byte (p ! 1) in
            if b1 < fst accept \<or> snd accept < b1 then (RuneError, 1)
            else if sz \<le> 2 then ((p0 mod 32) * 64 + b1 mod 64, 2)
            else
              let b2 = byte (p ! 2) in
              if b2 < locb \<or> hicb < b2 then (RuneError, 1)
              else if sz \<le> 3 then ((p0 mod 16) * 4096 + (b1 mod 64) * 64 + b2 mod 64, 3)
              else
                let b3 = byte (p ! 3) in
                if b3 < locb \<or> hicb < b3 then (RuneError, 1)
                else ((p0 mod 8) * 262144 + (b1 mod 64) * 4096 + (b2 mod 64) * 64
                        + b3 mod 64, 4))"

text \<open>
  \<^verbatim>\<open>utf8.AppendRune\<close>: the UTF-8 encoding of a rune; a surrogate or a value above
  \<open>MaxRune\<close> is encoded as \<open>RuneError\<close>.
\<close>

definition utf8_EncodeRune :: "nat \<Rightarrow> string" where
  "utf8_EncodeRune r =
     (if r \<le> MaxASCII then [char_of r]
      else if r \<le> rune2Max then [char_of (0xC0 + r div 64), char_of (0x80 + r mod 64)]
      else if r > MaxRune \<or> (surrogateMin \<le> r \<and> r \<le> surrogateMax) then
        [char_of (0xEF::nat), char_of (0xBF::nat), char_of (0xBD::nat)]
      else if r \<le> rune3Max then
        [char_of (0xE0 + r div 4096), char_of (0x80 + (r div 64) mod 64),
         char_of (0x80 + r mod 64)]
      else
        [char_of (0xF0 + r div 262144), char_of (0x80 + (r div 4096) mod 64),
         char_of (0x80 + (r div 64) mod 64), char_of (0x80 + r mod 64)])"

lemma utf8_first_size:
  assumes "\<not> b < RuneSelf" and "utf8_first b \<noteq> xx"
  shows "utf8_first b mod 8 = 2 \<or> utf8_first b mod 8 = 3 \<or> utf8_first b mod 8 = 4"
  using assms by (simp add: utf8_first_def split: if_splits)

text \<open>
  \<^verbatim>\<open>utf8.Valid\<close>: whether \<open>p\<close> consists entirely of valid UTF-8 encoded runes. The loop
  over the index \<open>i\<close> is a recursion on the rest of the input from \<open>i\<close> on. (The library
  first skips ASCII bytes eight at a time; that loop decides nothing the main one does
  not.)
\<close>

function utf8_Valid :: "string \<Rightarrow> bool" where
  "utf8_Valid [] = True"
| "utf8_Valid (c # cs) =
     (let pi = byte c in
      if pi < RuneSelf then utf8_Valid cs
      else
        let x = utf8_first pi in
        if x = xx then False
        else
          let size = x mod 8 in
          if size > length (c # cs) then False
          else
            let accept = acceptRanges (x div 16) in
            if byte (cs ! 0) < fst accept \<or> snd accept < byte (cs ! 0) then False
            else if size = 2 then utf8_Valid (drop size (c # cs))
            else if byte (cs ! 1) < locb \<or> hicb < byte (cs ! 1) then False
            else if size = 3 then utf8_Valid (drop size (c # cs))
            else if byte (cs ! 2) < locb \<or> hicb < byte (cs ! 2) then False
            else utf8_Valid (drop size (c # cs)))"
  by pat_completeness auto
termination
proof (relation "measure length")
  show "wf (measure length)" by simp
next
  fix c :: char and cs :: string
  show "(cs, c # cs) \<in> measure length" by simp
next
  fix c :: char and cs :: string and pi x size
  assume "pi = byte c" "\<not> pi < RuneSelf" "x = utf8_first pi" "x \<noteq> xx" "size = x mod 8"
  then have "size = 2 \<or> size = 3 \<or> size = 4"
    using utf8_first_size [of pi] by simp
  then have d: "(drop size (c # cs), c # cs) \<in> measure length"
    by auto
  {
    fix accept :: "nat \<times> nat"
    show "(drop size (c # cs), c # cs) \<in> measure length" by (rule d)
  }
  {
    fix accept :: "nat \<times> nat"
    show "(drop size (c # cs), c # cs) \<in> measure length" by (rule d)
  }
  {
    fix accept :: "nat \<times> nat"
    show "(drop size (c # cs), c # cs) \<in> measure length" by (rule d)
  }
qed

declare utf8_Valid.simps(2) [simp del]

text \<open>
  Two conditions of \<open>utf8_Valid\<close> by name: \<open>a\<close> is in the range that the leading byte \<open>c\<close>
  accepts for its second byte, and \<open>b\<close> is a continuation byte.
\<close>

definition in_accept :: "char \<Rightarrow> char \<Rightarrow> bool" where
  "in_accept c a =
     (fst (acceptRanges (utf8_first (byte c) div 16)) \<le> byte a \<and>
      byte a \<le> snd (acceptRanges (utf8_first (byte c) div 16)))"

definition cont :: "char \<Rightarrow> bool" where
  "cont b = (locb \<le> byte b \<and> byte b \<le> hicb)"

lemma utf8_first_multi:
  assumes "\<not> utf8_first b \<ge> as"
  shows "utf8_first b mod 8 = 2 \<or> utf8_first b mod 8 = 3 \<or> utf8_first b mod 8 = 4"
  using assms by (simp add: utf8_first_def split: if_splits)

lemma utf8_DecodeRune_width:
  assumes "p \<noteq> []"
  shows "1 \<le> snd (utf8_DecodeRune p) \<and> snd (utf8_DecodeRune p) \<le> length p"
proof (cases "utf8_first (byte (p ! 0)) \<ge> as")
  case True
  with assms show ?thesis
    by (cases p) (simp_all add: utf8_DecodeRune_def Let_def)
next
  case False
  from assms have n: "\<not> length p < 1" "Suc 0 \<le> length p" by (cases p; simp)+
  from utf8_first_multi [OF False] show ?thesis
  proof (elim disjE)
    assume "utf8_first (byte (p ! 0)) mod 8 = 2"
    with False n show ?thesis
      by (auto simp add: utf8_DecodeRune_def Let_def)
  next
    assume "utf8_first (byte (p ! 0)) mod 8 = 3"
    with False n show ?thesis
      by (auto simp add: utf8_DecodeRune_def Let_def)
  next
    assume "utf8_first (byte (p ! 0)) mod 8 = 4"
    with False n show ?thesis
      by (auto simp add: utf8_DecodeRune_def Let_def)
  qed
qed
subsection \<open>Package unicode\<close>

text \<open>
  \<^verbatim>\<open>unicode.ToLower\<close> maps an ASCII rune itself and sends every other rune through
  \<^verbatim>\<open>To(LowerCase, r)\<close>, a lookup in the case tables of the Unicode standard. The table
  is a parameter \<open>tbl\<close> of the model: whatever is proved holds for every table.
\<close>

definition unicode_ToLower :: "(nat \<Rightarrow> nat) \<Rightarrow> nat \<Rightarrow> nat" where
  "unicode_ToLower tbl r =
     (if r \<le> MaxASCII then (if 0x41 \<le> r \<and> r \<le> 0x5A then r + 0x20 else r)
      else tbl r)"

text \<open>
  A table for inputs that hold no cased letter beyond ASCII: it maps every rune to
  itself, as the Unicode tables do for \<open>RuneError\<close> and every other caseless rune.
\<close>

definition caseless :: "nat \<Rightarrow> nat" where
  "caseless r = r"

subsection \<open>Package strings\<close>

text \<open>
  \<^verbatim>\<open>strings.Map\<close>: the runes of \<open>s\<close>, each an invalid byte read as \<open>RuneError\<close> of
  width 1, are sent through \<open>mapping\<close> and encoded again. (The mappings used here never
  return a negative rune, the library's sign for dropping a character.)
\<close>

function strings_Map :: "(nat \<Rightarrow> nat) \<Rightarrow> string \<Rightarrow> string" where
  "strings_Map mapping s =
     (if s = [] then []
      else
        let (c, width) = utf8_DecodeRune s in
        utf8_EncodeRune (mapping c) @ strings_Map mapping (drop width s))"
  by pat_completeness auto
termination
proof (relation "measure (\<lambda>(mapping, s). length s)")
  show "wf (measure (\<lambda>(mapping, s). length s))" by simp
next
  fix mapping :: "nat \<Rightarrow> nat" and s :: string and x :: "nat \<times> nat" and c width
  assume "s \<noteq> []" "x = utf8_DecodeRune s" "(c, width) = x"
  then have "1 \<le> width"
    using utf8_DecodeRune_width [of s] by (metis snd_conv)
  with \<open>s \<noteq> []\<close> show "((mapping, drop width s), (mapping, s)) \<in> measure (\<lambda>(mapping, s). length s)"
    by (cases s) auto
qed

declare strings_Map.simps [simp del]

text \<open>
  \<^verbatim>\<open>strings.ToLower\<close>: an ASCII-only string is lowered byte by byte (and returned as it
  is when it has no upper-case letter); any other string goes through \<open>strings_Map\<close>.
\<close>

definition strings_ToLower :: "(nat \<Rightarrow> nat) \<Rightarrow> string \<Rightarrow> string" where
  "strings_ToLower tbl s =
     (let isASCII = list_all (\<lambda>c. byte c < RuneSelf) s;
          hasUpper = list_ex (\<lambda>c. 0x41 \<le> byte c \<and> byte c \<le> 0x5A) s
      in
        if isASCII then
          (if \<not> hasUpper then s
           else map (\<lambda>c. if 0x41 \<le> byte c \<and> byte c \<le> 0x5A then char_of (byte c + 0x20) else c) s)
        else strings_Map (unicode_ToLower tbl) s)"

text \<open>\<^verbatim>\<open>strings.Contains\<close>: whether \<open>substr\<close> occurs in \<open>s\<close>.\<close>

fun strings_Contains :: "string \<Rightarrow> string \<Rightarrow> bool" where
  "strings_Contains [] substr = (substr = [])"
| "strings_Contains (c # s) substr = (prefix substr (c # s) \<or> strings_Contains s substr)"

text \<open>
  \<^verbatim>\<open>strings.ReplaceAll\<close>: the non-overlapping occurrences of \<open>old\<close>, found from left to
  right, are replaced by \<open>new\<close>. An empty \<open>old\<close> matches before every rune and at the end.
\<close>

function runes_separated :: "string \<Rightarrow> string \<Rightarrow> string" where
  "runes_separated new s =
     (if s = [] then []
      else
        let wid = snd (utf8_DecodeRune s) in
        take wid s @ new @ runes_separated new (drop wid s))"
  by pat_completeness auto
termination
proof (relation "measure (\<lambda>(new, s). length s)")
  show "wf (measure (\<lambda>(new, s). length s))" by simp
next
  fix new s :: string and wid
  assume "s \<noteq> []" "wid = snd (utf8_DecodeRune s)"
  then have "1 \<le> wid"
    using utf8_DecodeRune_width [of s] by simp
  with \<open>s \<noteq> []\<close> show "((new, drop wid s), (new, s)) \<in> measure (\<lambda>(new, s). length s)"
    by (cases s) auto
qed

declare runes_separated.simps [simp del]

function replace_from :: "string \<Rightarrow> string \<Rightarrow> string \<Rightarrow> string" where
  "replace_from s old new =
     (if old = [] \<or> s = [] then s
      else if prefix old s then new @ replace_from (drop (length old) s) old new
      else hd s # replace_from (tl s) old new)"
  by pat_completeness auto
termination
  by (relation "measure (\<lambda>(s, old, new). length s)") (auto simp: neq_Nil_conv)

declare replace_from.simps [simp del]

definition strings_ReplaceAll :: "string \<Rightarrow> string \<Rightarrow> string \<Rightarrow> string" where
  "strings_ReplaceAll s old new =
     (if old = new then s
      else if old = [] then new @ runes_separated new s
      else replace_from s old new)"

text \<open>\<^verbatim>\<open>strings.Join\<close>: the elements, with \<open>sep\<close> between each two.\<close>

fun strings_Join :: "string list \<Rightarrow> string \<Rightarrow> string" where
  "strings_Join [] sep = []"
| "strings_Join [e] sep = e"
| "strings_Join (e # es) sep = e @ concat (map (\<lambda>s. sep @ s) es)"


text \<open>
  \<^verbatim>\<open>unicode.IsSpace\<close>: the white space of Latin-1 and the runes of the Unicode property
  White_Space beyond it.
\<close>

definition unicode_IsSpace :: "nat \<Rightarrow> bool" where
  "unicode_IsSpace r =
     (if r \<le> 0xFF then
        r = 0x09 \<or> r = 0x0A \<or> r = 0x0B \<or> r = 0x0C \<or> r = 0x0D \<or> r = 0x20 \<or> r = 0x85 \<or> r = 0xA0
      else
        r = 0x1680 \<or> (0x2000 \<le> r \<and> r \<le> 0x200A) \<or> r = 0x2028 \<or> r = 0x2029 \<or>
        r = 0x202F \<or> r = 0x205F \<or> r = 0x3000)"

text \<open>The table \<^verbatim>\<open>asciiSpace\<close> of package strings.\<close>

definition asciiSpace :: "nat \<Rightarrow> bool" where
  "asciiSpace c = (c = 0x09 \<or> c = 0x0A \<or> c = 0x0B \<or> c = 0x0C \<or> c = 0x0D \<or> c = 0x20)"

text \<open>\<^verbatim>\<open>utf8.RuneStart\<close>: the byte is not a continuation byte (\<^verbatim>\<open>b&0xC0 != 0x80\<close>).\<close>

definition RuneStart :: "nat \<Rightarrow> bool" where
  "RuneStart b = (b mod 256 div 64 \<noteq> 2)"

text \<open>
  \<^verbatim>\<open>utf8.DecodeLastRuneInString\<close>: the last rune of \<open>s\<close> and its width. The loop that
  walks back to the start of the rune, at most \<open>UTFMax\<close> bytes, is \<open>runeStart_back\<close>.
\<close>

function runeStart_back :: "string \<Rightarrow> int \<Rightarrow> int \<Rightarrow> int" where
  "runeStart_back s start lim =
     (if start \<ge> lim then
        (if RuneStart (byte (s ! nat start)) then start else runeStart_back s (start - 1) lim)
      else start)"
  by pat_completeness auto
termination
  by (relation "measure (\<lambda>(s, start, lim). nat (start - lim + 1))") auto

declare runeStart_back.simps [simp del]

definition utf8_DecodeLastRune :: "string \<Rightarrow> nat \<times> nat" where
  "utf8_DecodeLastRune s =
     (let stop = int (length s) in
      if stop = 0 then (RuneError, 0)
      else
        let start = stop - 1; r = byte (s ! nat start) in
        if r < RuneSelf then (r, 1)
        else
          let lim = stop - 4;
              lim = (if lim < 0 then 0 else lim);
              start = runeStart_back s (start - 1) lim;
              start = (if start < 0 then 0 else start);
              (r, size) = utf8_DecodeRune (drop (nat start) s)
          in if start + int size \<noteq> stop then (RuneError, 1) else (r, size))"


lemma runeStart_back_le: "runeStart_back s start lim \<le> start"
proof (induction s start lim rule: runeStart_back.induct)
  case (1 s start lim)
  show ?case
  proof (cases "start \<ge> lim \<and> \<not> RuneStart (byte (s ! nat start))")
    case True
    with 1 have "runeStart_back s (start - 1) lim \<le> start - 1" by simp
    with True show ?thesis by (subst runeStart_back.simps) simp
  next
    case False
    then show ?thesis by (subst runeStart_back.simps) auto
  qed
qed

lemma utf8_DecodeLastRune_width:
  assumes "s \<noteq> []"
  shows "1 \<le> snd (utf8_DecodeLastRune s) \<and> snd (utf8_DecodeLastRune s) \<le> length s"
proof -
  have len: "0 < length s" "Suc 0 \<le> length s" using assms by (simp_all add: Suc_le_eq)
  have bnd: "runeStart_back s (int (length s) - 2) L \<le> int (length s) - 2" for L
    by (rule runeStart_back_le)
  obtain r' n' where res: "utf8_DecodeLastRune s = (r', n')"
    by (cases "utf8_DecodeLastRune s")
  from res have "n' = 1 \<or> (1 \<le> n' \<and> n' \<le> length s)"
    unfolding utf8_DecodeLastRune_def Let_def
    using len bnd [of 0] bnd [of "int (length s) - 4"]
    by (auto split: if_splits prod.splits)
  with res len show ?thesis by auto
qed
text \<open>
  \<^verbatim>\<open>indexFunc\<close> and \<^verbatim>\<open>lastIndexFunc\<close>: the index of the first (last) rune \<open>r\<close> with
  \<open>f r = truth\<close>, or \<open>-1\<close>.
\<close>

function indexFunc :: "string \<Rightarrow> (nat \<Rightarrow> bool) \<Rightarrow> bool \<Rightarrow> int" where
  "indexFunc s f truth =
     (if s = [] then - 1
      else
        let (r, width) = utf8_DecodeRune s in
        if f r = truth then 0
        else
          let i = indexFunc (drop width s) f truth in
          if i = - 1 then - 1 else int width + i)"
  by pat_completeness auto
termination
proof (relation "measure (\<lambda>(s, f, truth). length s)")
  show "wf (measure (\<lambda>(s, f, truth). length s))" by simp
next
  fix s :: string and f :: "nat \<Rightarrow> bool" and truth :: bool and x :: "nat \<times> nat" and r width
  assume "s \<noteq> []" "x = utf8_DecodeRune s" "(r, width) = x"
  then have "1 \<le> width"
    using utf8_DecodeRune_width [of s] by (metis snd_conv)
  with \<open>s \<noteq> []\<close>
  show "((drop width s, f, truth), (s, f, truth)) \<in> measure (\<lambda>(s, f, truth). length s)"
    by (cases s) auto
qed

declare indexFunc.simps [simp del]

function lastIndexFunc :: "string \<Rightarrow> (nat \<Rightarrow> bool) \<Rightarrow> bool \<Rightarrow> int" where
  "lastIndexFunc s f truth =
     (if length s > 0 then
        let (r, size) = utf8_DecodeLastRune s;
            i = length s - size
        in if f r = truth then int i else lastIndexFunc (take i s) f truth
      else - 1)"
  by pat_completeness auto
termination
proof (relation "measure (\<lambda>(s, f, truth). length s)")
  show "wf (measure (\<lambda>(s, f, truth). length s))" by simp
next
  fix s :: string and f :: "nat \<Rightarrow> bool" and truth :: bool and x :: "nat \<times> nat" and r size i
  assume "0 < length s" "x = utf8_DecodeLastRune s" "(r, size) = x" "i = length s - size"
  then have "1 \<le> size"
    using utf8_DecodeLastRune_width [of s] by (metis length_greater_0_conv snd_conv)
  with \<open>0 < length s\<close> \<open>i = length s - size\<close>
  show "((take i s, f, truth), (s, f, truth)) \<in> measure (\<lambda>(s, f, truth). length s)"
    by auto
qed

declare lastIndexFunc.simps [simp del]

text \<open>\<^verbatim>\<open>strings.TrimLeftFunc\<close>, \<^verbatim>\<open>TrimRightFunc\<close> and \<^verbatim>\<open>TrimFunc\<close>.\<close>

definition strings_TrimLeftFunc :: "string \<Rightarrow> (nat \<Rightarrow> bool) \<Rightarrow> string" where
  "strings_TrimLeftFunc s f =
     (let i = indexFunc s f False in
      if i = - 1 then [] else drop (nat i) s)"

definition strings_TrimRightFunc :: "string \<Rightarrow> (nat \<Rightarrow> bool) \<Rightarrow> string" where
  "strings_TrimRightFunc s f =
     (let i = lastIndexFunc s f False;
          i = (if i \<ge> 0 \<and> byte (s ! nat i) \<ge> RuneSelf
               then i + int (snd (utf8_DecodeRune (drop (nat i) s)))
               else i + 1)
      in take (nat i) s)"

definition strings_TrimFunc :: "string \<Rightarrow> (nat \<Rightarrow> bool) \<Rightarrow> string" where
  "strings_TrimFunc s f = strings_TrimRightFunc (strings_TrimLeftFunc s f) f"

text \<open>
  \<^verbatim>\<open>strings.TrimSpace\<close>. The first loop moves \<open>start\<close> over the leading ASCII space,
  the second moves \<open>stop\<close> back over the trailing ASCII space; at the first byte that
  is not ASCII either loop hands the rest to the rune-wise functions. \<open>strings_TrimSpace\<close>
  is the first loop on \<open>s[start:]\<close>, \<open>TrimSpace_stop\<close> the second on \<open>s[start:stop]\<close>.
\<close>

function TrimSpace_stop :: "string \<Rightarrow> string" where
  "TrimSpace_stop s =
     (if length s > 0 then
        let c = byte (s ! (length s - 1)) in
        if c \<ge> RuneSelf then strings_TrimRightFunc s unicode_IsSpace
        else if \<not> asciiSpace c then s
        else TrimSpace_stop (take (length s - 1) s)
      else s)"
  by pat_completeness auto
termination
  by (relation "measure length") auto

declare TrimSpace_stop.simps [simp del]

fun strings_TrimSpace :: "string \<Rightarrow> string" where
  "strings_TrimSpace [] = TrimSpace_stop []"
| "strings_TrimSpace (c # cs) =
     (if byte c \<ge> RuneSelf then strings_TrimFunc (c # cs) unicode_IsSpace
      else if \<not> asciiSpace (byte c) then TrimSpace_stop (c # cs)
      else strings_TrimSpace cs)"




section \<open>The client\<close>

subsection \<open>Errors\<close>

text \<open>
  A Go \<^verbatim>\<open>error\<close> built by \<^verbatim>\<open>fmt.Errorf\<close>. \<open>Errorf m\<close> carries the fixed text \<open>m\<close> of the
  message (for a message that wraps the error of a library call, the text before the
  colon); \<open>Wrapped m e\<close> is \<^verbatim>\<open>fmt.Errorf("m: %w", e)\<close> around an error \<open>e\<close> of this package.
\<close>

datatype error =
    Errorf string
  | HTTPError int
  | UnsupportedCharset string
  | Wrapped string error

subsection \<open>Character sets\<close>

datatype charmap = ISO8859_1 | Windows1252

text \<open>
  \<^verbatim>\<open>transform.NewReader(input, decoder)\<close>: a reader that yields the bytes of \<open>input\<close>
  decoded from a character map. The input reader is the bytes it delivers.
\<close>

datatype reader = transform_NewReader string charmap

definition charsetReader :: "(nat \<Rightarrow> nat) \<Rightarrow> string \<Rightarrow> string \<Rightarrow> error + reader" where
  "charsetReader tbl charset input =
     (let name = strings_ToLower tbl charset in
      if name = ''iso-8859-1'' \<or> name = ''latin1'' then
        Inr (transform_NewReader input ISO8859_1)
      else if name = ''windows-1252'' \<or> name = ''cp1252'' then
        Inr (transform_NewReader input Windows1252)
      else Inl (UnsupportedCharset charset))"

text \<open>
  \<^verbatim>\<open>charmap.ISO8859_1.NewDecoder().Bytes\<close>: byte \<open>b\<close> is the code point \<open>b\<close>; an ASCII
  byte is copied and any other byte becomes the two bytes of its UTF-8 encoding
  (\<open>ISO8859_1_decode\<close>). The decoder of a character map has no failing input, so the
  result is never an error.
\<close>

definition ISO8859_1_decode :: "string \<Rightarrow> string" where
  "ISO8859_1_decode data =
     concat (map (\<lambda>c. if byte c < RuneSelf then [c] else utf8_EncodeRune (byte c)) data)"

definition ISO8859_1_Bytes :: "string \<Rightarrow> error + string" where
  "ISO8859_1_Bytes data = Inr (ISO8859_1_decode data)"

definition min_go :: "nat \<Rightarrow> nat \<Rightarrow> nat" where
  "min_go a b = (if a < b then a else b)"

definition convertToUTF8 :: "(nat \<Rightarrow> nat) \<Rightarrow> string \<Rightarrow> error + string" where
  "convertToUTF8 tbl data =
     (if utf8_Valid data then Inr data
      else
        let xmlDecl = take (min_go (length data) 200) data in
        if strings_Contains (strings_ToLower tbl xmlDecl) ''iso-8859-1'' \<or>
           strings_Contains (strings_ToLower tbl xmlDecl) ''latin1''
        then
          (case ISO8859_1_Bytes data of
             Inl err \<Rightarrow> Inl (Wrapped ''failed to convert from ISO-8859-1'' err)
           | Inr utf8Data \<Rightarrow>
               let utf8String = utf8Data;
                   utf8String = strings_ReplaceAll utf8String ''ISO-8859-1'' ''UTF-8'';
                   utf8String = strings_ReplaceAll utf8String ''iso-8859-1'' ''utf-8''
               in Inr utf8String)
        else Inr data)"

subsection \<open>Records of the XML vocabulary\<close>

text \<open>Go's \<^verbatim>\<open>int\<close> and \<^verbatim>\<open>int64\<close> are 64-bit words; the client only carries them.\<close>

record xml_Name =
  Space :: string
  Local :: string

record DataPoint =
  XMLName :: xml_Name
  Name :: string
  Type :: string
  IseID :: string
  Value :: string
  ValueType :: "64 word"
  ValueUnit :: string
  Timestamp :: "64 word"

record Channel =
  XMLName :: xml_Name
  Name :: string
  Type :: string
  Address :: string
  IseID :: string
  Direction :: string
  ParentType :: string
  Index :: "64 word"
  GroupPartner :: string
  AESAvailable :: bool
  Transmission :: string
  Visible :: bool
  Ready :: bool
  Operate :: bool
  DataPoints :: "DataPoint list"

record Device =
  XMLName :: xml_Name
  Name :: string
  Address :: string
  IseID :: string
  Unreach :: bool
  Config :: bool
  DeviceType :: string
  InterfaceID :: string
  Channels :: "Channel list"

record Program =
  XMLName :: xml_Name
  ID :: string
  Name :: string
  Description :: string
  Info :: string
  Visible :: bool
  Active :: bool
  Timestamp :: "64 word"

record Room =
  XMLName :: xml_Name
  Name :: string
  IseID :: string
  Channels :: "Channel list"

record Function =
  XMLName :: xml_Name
  Name :: string
  IseID :: string
  Channels :: "Channel list"

record SystemVariable =
  XMLName :: xml_Name
  Name :: string
  Variable :: string
  Value :: string
  ValueType :: "64 word"
  IseID :: string
  Min :: string
  Max :: string
  Unit :: string
  Type :: string
  Subtype :: string
  Logged :: bool
  Visible :: bool
  Timestamp :: "64 word"
  ValueName0 :: string
  ValueName1 :: string
  ValueText :: string

record DeviceType =
  XMLName :: xml_Name
  Name :: string
  ID :: string

record APIResponse =
  XMLName :: xml_Name
  Devices :: "Device list"
  Programs :: "Program list"
  Rooms :: "Room list"
  Functions :: "Function list"
  SystemVariables :: "SystemVariable list"
  DeviceTypes :: "DeviceType list"
  Version :: string

record DeviceListResponse =
  XMLName :: xml_Name
  Devices :: "Device list"

record StateListResponse =
  XMLName :: xml_Name
  Devices :: "Device list"

record ProgramListResponse =
  XMLName :: xml_Name
  Programs :: "Program list"

record RoomListResponse =
  XMLName :: xml_Name
  Rooms :: "Room list"

record FunctionListResponse =
  XMLName :: xml_Name
  Functions :: "Function list"

record SystemVariableListResponse =
  XMLName :: xml_Name
  SystemVariables :: "SystemVariable list"

record DeviceTypeListResponse =
  XMLName :: xml_Name
  DeviceTypes :: "DeviceType list"

record VersionResponse =
  XMLName :: xml_Name
  Value :: string


subsection \<open>Transport\<close>

text \<open>
  A parsed URL: \<open>Location\<close> is what \<^verbatim>\<open>url.Parse\<close> found before the query (scheme, host,
  path) and \<open>Query\<close> is the query as \<^verbatim>\<open>url.Values\<close>, a map from a key to its values;
  \<^verbatim>\<open>u.Query()\<close> reads it and \<^verbatim>\<open>u.RawQuery = q.Encode()\<close> writes it. \<^verbatim>\<open>url.Parse\<close> itself is
  the parameter \<open>url_Parse\<close> below; \<open>None\<close> is its error.
\<close>

record URL =
  Location :: string
  Query :: "string \<rightharpoonup> string list"

text \<open>
  The answer to a GET: the status code and the body; \<open>Body = None\<close> when
  \<^verbatim>\<open>io.ReadAll\<close> fails.
\<close>

record Response =
  StatusCode :: int
  Body :: "string option"

text \<open>
  The client. \<open>HTTPClient\<close> is \<^verbatim>\<open>c.HTTPClient.Get\<close>: what the other end answers to a
  request, \<open>None\<close> when the request fails.
\<close>

record Client =
  BaseURL :: string
  Token :: string
  HTTPClient :: "URL \<Rightarrow> Response option"

text \<open>
  What a call does beyond returning: the requests it sends and the bodies it hands to
  the XML decoder, in order.
\<close>

datatype event = HTTP_Get URL | XML_Decode string

type_synonym CharsetReader = "string \<Rightarrow> string \<Rightarrow> error + reader"

text \<open>
  The libraries the client stands on, as parameters: the lower-case table of package
  unicode, \<^verbatim>\<open>url.Parse\<close>, and \<^verbatim>\<open>xml.Decoder.Decode\<close> into each of the response types, given
  the decoder's \<^verbatim>\<open>CharsetReader\<close> and the bytes; \<open>None\<close> is a decoding error.
  \<open>Unmarshal_APIResponse\<close> is \<^verbatim>\<open>xml.Unmarshal\<close>, which the file \<^verbatim>\<open>homematic/main.go\<close> uses.
\<close>

record Env =
  LowerCase :: "nat \<Rightarrow> nat"
  url_Parse :: "string \<Rightarrow> URL option"
  Decode_APIResponse :: "CharsetReader \<Rightarrow> string \<Rightarrow> APIResponse option"
  Decode_DeviceListResponse :: "CharsetReader \<Rightarrow> string \<Rightarrow> DeviceListResponse option"
  Decode_StateListResponse :: "CharsetReader \<Rightarrow> string \<Rightarrow> StateListResponse option"
  Decode_ProgramListResponse :: "CharsetReader \<Rightarrow> string \<Rightarrow> ProgramListResponse option"
  Decode_RoomListResponse :: "CharsetReader \<Rightarrow> string \<Rightarrow> RoomListResponse option"
  Decode_FunctionListResponse :: "CharsetReader \<Rightarrow> string \<Rightarrow> FunctionListResponse option"
  Decode_SystemVariableListResponse ::
    "CharsetReader \<Rightarrow> string \<Rightarrow> SystemVariableListResponse option"
  Decode_DeviceTypeListResponse :: "CharsetReader \<Rightarrow> string \<Rightarrow> DeviceTypeListResponse option"
  Decode_VersionResponse :: "CharsetReader \<Rightarrow> string \<Rightarrow> VersionResponse option"
  Unmarshal_APIResponse :: "string \<Rightarrow> APIResponse option"

text \<open>
  \<^verbatim>\<open>q.Set(key, value)\<close>, and the loop that sets every entry of \<open>params\<close>. The keys of a
  map are distinct, so the order of the loop does not show in the result.
\<close>

definition Values_Set :: "(string \<rightharpoonup> string list) \<Rightarrow> string \<Rightarrow> string \<Rightarrow> (string \<rightharpoonup> string list)" where
  "Values_Set q key value = q(key \<mapsto> [value])"

definition Set_params :: "(string \<rightharpoonup> string list) \<Rightarrow> (string \<rightharpoonup> string) \<Rightarrow> (string \<rightharpoonup> string list)" where
  "Set_params q params = (\<lambda>key. case params key of None \<Rightarrow> q key | Some value \<Rightarrow> Some [value])"

definition makeRequest ::
  "Env \<Rightarrow> Client \<Rightarrow> string \<Rightarrow> (string \<rightharpoonup> string) \<Rightarrow> (error + APIResponse) \<times> event list" where
  "makeRequest E c endpoint params =
     (case url_Parse E (BaseURL c @ ''/addons/xmlapi/'' @ endpoint) of
        None \<Rightarrow> (Inl (Errorf ''invalid URL''), [])
      | Some u \<Rightarrow>
          let q = Query u;
              q = Values_Set q ''sid'' (Token c);
              q = Set_params q params;
              u = u\<lparr>Query := q\<rparr>
          in
          (case HTTPClient c u of
             None \<Rightarrow> (Inl (Errorf ''HTTP request failed''), [HTTP_Get u])
           | Some resp \<Rightarrow>
               if StatusCode resp \<noteq> 200 then (Inl (HTTPError (StatusCode resp)), [HTTP_Get u])
               else
                 (case Body resp of
                    None \<Rightarrow> (Inl (Errorf ''failed to read response''), [HTTP_Get u])
                  | Some body \<Rightarrow>
                      (case convertToUTF8 (LowerCase E) body of
                         Inl err \<Rightarrow> (Inl (Wrapped ''failed to convert encoding'' err), [HTTP_Get u])
                       | Inr utf8Body \<Rightarrow>
                           (case Decode_APIResponse E (charsetReader (LowerCase E)) utf8Body of
                              None \<Rightarrow>
                                (Inl (Errorf ''failed to parse XML''),
                                 [HTTP_Get u, XML_Decode utf8Body])
                            | Some result \<Rightarrow>
                                (Inr result, [HTTP_Get u, XML_Decode utf8Body]))))))"

definition makeRawRequest ::
  "Env \<Rightarrow> Client \<Rightarrow> string \<Rightarrow> (string \<rightharpoonup> string) \<Rightarrow> (error + string) \<times> event list" where
  "makeRawRequest E c endpoint params =
     (case url_Parse E (BaseURL c @ ''/addons/xmlapi/'' @ endpoint) of
        None \<Rightarrow> (Inl (Errorf ''invalid URL''), [])
      | Some u \<Rightarrow>
          let q = Query u;
              q = Values_Set q ''sid'' (Token c);
              q = Set_params q params;
              u = u\<lparr>Query := q\<rparr>
          in
          (case HTTPClient c u of
             None \<Rightarrow> (Inl (Errorf ''HTTP request failed''), [HTTP_Get u])
           | Some resp \<Rightarrow>
               if StatusCode resp \<noteq> 200 then (Inl (HTTPError (StatusCode resp)), [HTTP_Get u])
               else
                 (case Body resp of
                    None \<Rightarrow> (Inl (Errorf ''failed to read response''), [HTTP_Get u])
                  | Some body \<Rightarrow>
                      (case convertToUTF8 (LowerCase E) body of
                         Inl err \<Rightarrow> (Inl (Wrapped ''failed to convert encoding'' err), [HTTP_Get u])
                       | Inr utf8Body \<Rightarrow> (Inr utf8Body, [HTTP_Get u])))))"

text \<open>
  The step every reading operation repeats: a decoder with \<open>charsetReader\<close> plugged in
  decodes the body into the response type of the call, and the call returns a field of
  the result. \<open>msg\<close> is the text of the error for a body that does not decode.
\<close>

definition decodeBody ::
  "Env \<Rightarrow> (Env \<Rightarrow> CharsetReader \<Rightarrow> string \<Rightarrow> 'r option) \<Rightarrow> string \<Rightarrow> ('r \<Rightarrow> 'a) \<Rightarrow>
   (error + string) \<times> event list \<Rightarrow> (error + 'a) \<times> event list" where
  "decodeBody E Decode msg field raw =
     (case raw of
        (Inl err, tr) \<Rightarrow> (Inl err, tr)
      | (Inr body, tr) \<Rightarrow>
          (case Decode E (charsetReader (LowerCase E)) body of
             None \<Rightarrow> (Inl (Errorf msg), tr @ [XML_Decode body])
           | Some result \<Rightarrow> (Inr (field result), tr @ [XML_Decode body])))"

text \<open>An operation that returns only an \<^verbatim>\<open>error\<close> returns \<open>None\<close> for \<^verbatim>\<open>nil\<close>.\<close>

definition errorOf :: "(error + 'a) \<times> event list \<Rightarrow> error option \<times> event list" where
  "errorOf r = (case r of (Inl err, tr) \<Rightarrow> (Some err, tr) | (Inr _, tr) \<Rightarrow> (None, tr))"

subsection \<open>Operations\<close>

definition GetVersion :: "Env \<Rightarrow> Client \<Rightarrow> (error + string) \<times> event list" where
  "GetVersion E c =
     decodeBody E Decode_VersionResponse ''failed to parse version XML''
       (\<lambda>versionResp. strings_TrimSpace (VersionResponse.Value versionResp))
       (makeRawRequest E c ''version.cgi'' Map.empty)"

definition GetDeviceList ::
  "Env \<Rightarrow> Client \<Rightarrow> string list \<Rightarrow> bool \<Rightarrow> bool \<Rightarrow> (error + Device list) \<times> event list" where
  "GetDeviceList E c deviceIDs showInternal showRemote =
     (let params = Map.empty;
          params = (if length deviceIDs > 0
                    then params(''device_id'' \<mapsto> strings_Join deviceIDs '','') else params);
          params = (if showInternal then params(''show_internal'' \<mapsto> ''1'') else params);
          params = (if showRemote then params(''show_remote'' \<mapsto> ''1'') else params)
      in decodeBody E Decode_DeviceListResponse ''failed to parse XML'' DeviceListResponse.Devices
           (makeRawRequest E c ''devicelist.cgi'' params))"

definition GetDeviceTypes :: "Env \<Rightarrow> Client \<Rightarrow> (error + DeviceType list) \<times> event list" where
  "GetDeviceTypes E c =
     decodeBody E Decode_DeviceTypeListResponse ''failed to parse XML''
       DeviceTypeListResponse.DeviceTypes
       (makeRawRequest E c ''devicetypelist.cgi'' Map.empty)"

definition GetStateList ::
  "Env \<Rightarrow> Client \<Rightarrow> string \<Rightarrow> bool \<Rightarrow> bool \<Rightarrow> (error + Device list) \<times> event list" where
  "GetStateList E c deviceID showInternal showRemote =
     (let params = Map.empty;
          params = (if showInternal then params(''show_internal'' \<mapsto> ''1'') else params);
          params = (if showRemote then params(''show_remote'' \<mapsto> ''1'') else params)
      in decodeBody E Decode_StateListResponse ''failed to parse XML''
           (\<lambda>result.
              if deviceID \<noteq> [] then
                filter (\<lambda>device. Device.IseID device = deviceID) (StateListResponse.Devices result)
              else StateListResponse.Devices result)
           (makeRawRequest E c ''statelist.cgi'' params))"

definition GetState ::
  "Env \<Rightarrow> Client \<Rightarrow> string list \<Rightarrow> string list \<Rightarrow> string list \<Rightarrow>
   (error + Device list) \<times> event list" where
  "GetState E c deviceIDs channelIDs datapointIDs =
     (let params = Map.empty;
          params = (if length deviceIDs > 0
                    then params(''device_id'' \<mapsto> strings_Join deviceIDs '','') else params);
          params = (if length channelIDs > 0
                    then params(''channel_id'' \<mapsto> strings_Join channelIDs '','') else params);
          params = (if length datapointIDs > 0
                    then params(''datapoint_id'' \<mapsto> strings_Join datapointIDs '','') else params)
      in decodeBody E Decode_StateListResponse ''failed to parse XML'' StateListResponse.Devices
           (makeRawRequest E c ''state.cgi'' params))"

definition ChangeState ::
  "Env \<Rightarrow> Client \<Rightarrow> string list \<Rightarrow> string list \<Rightarrow> error option \<times> event list" where
  "ChangeState E c deviceIDs newValues =
     (if length deviceIDs \<noteq> length newValues then
        (Some (Errorf ''device IDs and new values must have the same length''), [])
      else
        let params = [''ise_id'' \<mapsto> strings_Join deviceIDs '','',
                      ''new_value'' \<mapsto> strings_Join newValues '','']
        in errorOf (makeRequest E c ''statechange.cgi'' params))"

definition GetProgramList :: "Env \<Rightarrow> Client \<Rightarrow> (error + Program list) \<times> event list" where
  "GetProgramList E c =
     decodeBody E Decode_ProgramListResponse ''failed to parse XML'' ProgramListResponse.Programs
       (makeRawRequest E c ''programlist.cgi'' Map.empty)"

definition RunProgram :: "Env \<Rightarrow> Client \<Rightarrow> string \<Rightarrow> bool \<Rightarrow> error option \<times> event list" where
  "RunProgram E c programID condCheck =
     (let params = [''program_id'' \<mapsto> programID];
          params = (if condCheck then params(''cond_check'' \<mapsto> ''1'') else params)
      in errorOf (makeRequest E c ''runprogram.cgi'' params))"

text \<open>\<^verbatim>\<open>strconv.FormatBool\<close>.\<close>

definition strconv_FormatBool :: "bool \<Rightarrow> string" where
  "strconv_FormatBool b = (if b then ''true'' else ''false'')"

text \<open>The arguments \<^verbatim>\<open>active, visible *bool\<close> are options: \<open>None\<close> is \<^verbatim>\<open>nil\<close>.\<close>

definition ChangeProgramActions ::
  "Env \<Rightarrow> Client \<Rightarrow> string \<Rightarrow> bool option \<Rightarrow> bool option \<Rightarrow> error option \<times> event list" where
  "ChangeProgramActions E c programID active visible =
     (let params = [''program_id'' \<mapsto> programID];
          params = (case active of None \<Rightarrow> params
                    | Some a \<Rightarrow> params(''active'' \<mapsto> strconv_FormatBool a));
          params = (case visible of None \<Rightarrow> params
                    | Some v \<Rightarrow> params(''visible'' \<mapsto> strconv_FormatBool v))
      in errorOf (makeRequest E c ''programactions.cgi'' params))"

definition GetRoomList :: "Env \<Rightarrow> Client \<Rightarrow> (error + Room list) \<times> event list" where
  "GetRoomList E c =
     decodeBody E Decode_RoomListResponse ''failed to parse XML'' RoomListResponse.Rooms
       (makeRawRequest E c ''roomlist.cgi'' Map.empty)"

definition GetFunctionList :: "Env \<Rightarrow> Client \<Rightarrow> (error + Function list) \<times> event list" where
  "GetFunctionList E c =
     decodeBody E Decode_FunctionListResponse ''failed to parse XML''
       FunctionListResponse.Functions
       (makeRawRequest E c ''functionlist.cgi'' Map.empty)"

definition GetSystemVariableList ::
  "Env \<Rightarrow> Client \<Rightarrow> bool \<Rightarrow> (error + SystemVariable list) \<times> event list" where
  "GetSystemVariableList E c showText =
     (let params = Map.empty;
          params = (if showText then params(''text'' \<mapsto> ''true'')
                    else params(''text'' \<mapsto> ''false''))
      in decodeBody E Decode_SystemVariableListResponse ''failed to parse XML''
           SystemVariableListResponse.SystemVariables
           (makeRawRequest E c ''sysvarlist.cgi'' params))"

definition GetSystemVariable ::
  "Env \<Rightarrow> Client \<Rightarrow> string \<Rightarrow> bool \<Rightarrow> (error + SystemVariable) \<times> event list" where
  "GetSystemVariable E c iseID showText =
     (let params = [''ise_id'' \<mapsto> iseID];
          params = (if showText then params(''text'' \<mapsto> ''true'')
                    else params(''text'' \<mapsto> ''false''))
      in
        (case decodeBody E Decode_SystemVariableListResponse ''failed to parse XML'' id
                (makeRawRequest E c ''sysvar.cgi'' params) of
           (Inl err, tr) \<Rightarrow> (Inl err, tr)
         | (Inr result, tr) \<Rightarrow>
             if length (SystemVariableListResponse.SystemVariables result) = 0 then
               (Inl (Errorf ''system variable not found''), tr)
             else (Inr (SystemVariableListResponse.SystemVariables result ! 0), tr)))"

definition RegisterToken :: "Env \<Rightarrow> Client \<Rightarrow> string \<Rightarrow> error option \<times> event list" where
  "RegisterToken E c description =
     (let params = [''desc'' \<mapsto> description]
      in errorOf (makeRequest E c ''tokenregister.cgi'' params))"

definition RevokeToken :: "Env \<Rightarrow> Client \<Rightarrow> string \<Rightarrow> error option \<times> event list" where
  "RevokeToken E c tokenID =
     (let params = [''sid'' \<mapsto> tokenID]
      in errorOf (makeRequest E c ''tokenrevoke.cgi'' params))"

definition GetMasterValue ::
  "Env \<Rightarrow> Client \<Rightarrow> string list \<Rightarrow> string list \<Rightarrow> (error + Device list) \<times> event list" where
  "GetMasterValue E c deviceIDs requestedNames =
     (let params = Map.empty;
          params = (if length deviceIDs > 0
                    then params(''device_id'' \<mapsto> strings_Join deviceIDs '','') else params);
          params = (if length requestedNames > 0
                    then params(''requested_names'' \<mapsto> strings_Join requestedNames '','')
                    else params)
      in decodeBody E Decode_DeviceListResponse ''failed to parse XML'' DeviceListResponse.Devices
           (makeRawRequest E c ''mastervalue.cgi'' params))"

definition ChangeMasterValue ::
  "Env \<Rightarrow> Client \<Rightarrow> string list \<Rightarrow> string list \<Rightarrow> string list \<Rightarrow> error option \<times> event list" where
  "ChangeMasterValue E c deviceIDs names values =
     (if length deviceIDs \<noteq> length names \<or> length names \<noteq> length values then
        (Some (Errorf ''device IDs, names, and values must have the same length''), [])
      else
        let params = [''device_id'' \<mapsto> strings_Join deviceIDs '','',
                      ''name'' \<mapsto> strings_Join names '','',
                      ''value'' \<mapsto> strings_Join values '','']
        in errorOf (makeRequest E c ''mastervaluechange.cgi'' params))"


subsection \<open>The same operations in \<^verbatim>\<open>homematic/main.go\<close>\<close>

text \<open>
  The file \<^verbatim>\<open>homematic/main.go\<close> holds the client without the conversion of the
  encoding: its \<^verbatim>\<open>makeRequest\<close> hands the body to \<^verbatim>\<open>xml.Unmarshal\<close>, and every
  operation reads a field of the \<^verbatim>\<open>APIResponse\<close>. The operations below are the ones of
  that file with a check of their own.
\<close>

definition makeRequest_main ::
  "Env \<Rightarrow> Client \<Rightarrow> string \<Rightarrow> (string \<rightharpoonup> string) \<Rightarrow> (error + APIResponse) \<times> event list" where
  "makeRequest_main E c endpoint params =
     (case url_Parse E (BaseURL c @ ''/addons/xmlapi/'' @ endpoint) of
        None \<Rightarrow> (Inl (Errorf ''invalid URL''), [])
      | Some u \<Rightarrow>
          let q = Query u;
              q = Values_Set q ''sid'' (Token c);
              q = Set_params q params;
              u = u\<lparr>Query := q\<rparr>
          in
          (case HTTPClient c u of
             None \<Rightarrow> (Inl (Errorf ''HTTP request failed''), [HTTP_Get u])
           | Some resp \<Rightarrow>
               if StatusCode resp \<noteq> 200 then (Inl (HTTPError (StatusCode resp)), [HTTP_Get u])
               else
                 (case Body resp of
                    None \<Rightarrow> (Inl (Errorf ''failed to read response''), [HTTP_Get u])
                  | Some body \<Rightarrow>
                      (case Unmarshal_APIResponse E body of
                         None \<Rightarrow> (Inl (Errorf ''failed to parse XML''), [HTTP_Get u, XML_Decode body])
                       | Some result \<Rightarrow> (Inr result, [HTTP_Get u, XML_Decode body])))))"

definition ChangeState_main ::
  "Env \<Rightarrow> Client \<Rightarrow> string list \<Rightarrow> string list \<Rightarrow> error option \<times> event list" where
  "ChangeState_main E c deviceIDs newValues =
     (if length deviceIDs \<noteq> length newValues then
        (Some (Errorf ''device IDs and new values must have the same length''), [])
      else
        let params = [''ise_id'' \<mapsto> strings_Join deviceIDs '','',
                      ''new_value'' \<mapsto> strings_Join newValues '','']
        in errorOf (makeRequest_main E c ''statechange.cgi'' params))"

definition ChangeMasterValue_main ::
  "Env \<Rightarrow> Client \<Rightarrow> string list \<Rightarrow> string list \<Rightarrow> string list \<Rightarrow> error option \<times> event list" where
  "ChangeMasterValue_main E c deviceIDs names values =
     (if length deviceIDs \<noteq> length names \<or> length names \<noteq> length values then
        (Some (Errorf ''device IDs, names, and values must have the same length''), [])
      else
        let params = [''device_id'' \<mapsto> strings_Join deviceIDs '','',
                      ''name'' \<mapsto> strings_Join names '','',
                      ''value'' \<mapsto> strings_Join values '','']
        in errorOf (makeRequest_main E c ''mastervaluechange.cgi'' params))"

definition GetSystemVariable_main ::
  "Env \<Rightarrow> Client \<Rightarrow> string \<Rightarrow> bool \<Rightarrow> (error + SystemVariable) \<times> event list" where
  "GetSystemVariable_main E c iseID showText =
     (let params = [''ise_id'' \<mapsto> iseID];
          params = (if showText then params(''text'' \<mapsto> ''true'')
                    else params(''text'' \<mapsto> ''false''))
      in
        (case makeRequest_main E c ''sysvar.cgi'' params of
           (Inl err, tr) \<Rightarrow> (Inl err, tr)
         | (Inr resp, tr) \<Rightarrow>
             if length (APIResponse.SystemVariables resp) = 0 then
               (Inl (Errorf ''system variable not found''), tr)
             else (Inr (APIResponse.SystemVariables resp ! 0), tr)))"

subsection \<open>Every public operation\<close>

text \<open>
  The public operations of the client with their arguments, and what a call returns,
  so that a statement can range over all of them.
\<close>

datatype operation =
    Op_GetVersion
  | Op_GetDeviceList "string list" bool bool
  | Op_GetDeviceTypes
  | Op_GetStateList string bool bool
  | Op_GetState "string list" "string list" "string list"
  | Op_ChangeState "string list" "string list"
  | Op_GetProgramList
  | Op_RunProgram string bool
  | Op_ChangeProgramActions string "bool option" "bool option"
  | Op_GetRoomList
  | Op_GetFunctionList
  | Op_GetSystemVariableList bool
  | Op_GetSystemVariable string bool
  | Op_RegisterToken string
  | Op_RevokeToken string
  | Op_GetMasterValue "string list" "string list"
  | Op_ChangeMasterValue "string list" "string list" "string list"

datatype returned =
    R_Version string
  | R_Devices "Device list"
  | R_DeviceTypes "DeviceType list"
  | R_Programs "Program list"
  | R_Rooms "Room list"
  | R_Functions "Function list"
  | R_SystemVariables "SystemVariable list"
  | R_SystemVariable SystemVariable
  | R_nil

definition returning ::
  "('a \<Rightarrow> returned) \<Rightarrow> (error + 'a) \<times> event list \<Rightarrow> (error + returned) \<times> event list" where
  "returning R r = (case r of (Inl err, tr) \<Rightarrow> (Inl err, tr) | (Inr v, tr) \<Rightarrow> (Inr (R v), tr))"

definition returning_error :: "error option \<times> event list \<Rightarrow> (error + returned) \<times> event list" where
  "returning_error r = (case r of (Some err, tr) \<Rightarrow> (Inl err, tr) | (None, tr) \<Rightarrow> (Inr R_nil, tr))"

fun call :: "Env \<Rightarrow> Client \<Rightarrow> operation \<Rightarrow> (error + returned) \<times> event list" where
  "call E c Op_GetVersion = returning R_Version (GetVersion E c)"
| "call E c (Op_GetDeviceList deviceIDs showInternal showRemote) =
     returning R_Devices (GetDeviceList E c deviceIDs showInternal showRemote)"
| "call E c Op_GetDeviceTypes = returning R_DeviceTypes (GetDeviceTypes E c)"
| "call E c (Op_GetStateList deviceID showInternal showRemote) =
     returning R_Devices (GetStateList E c deviceID showInternal showRemote)"
| "call E c (Op_GetState deviceIDs channelIDs datapointIDs) =
     returning R_Devices (GetState E c deviceIDs channelIDs datapointIDs)"
| "call E c (Op_ChangeState deviceIDs newValues) =
     returning_error (ChangeState E c deviceIDs newValues)"
| "call E c Op_GetProgramList = returning R_Programs (GetProgramList E c)"
| "call E c (Op_RunProgram programID condCheck) =
     returning_error (RunProgram E c programID condCheck)"
| "call E c (Op_ChangeProgramActions programID active visible) =
     returning_error (ChangeProgramActions E c programID active visible)"
| "call E c Op_GetRoomList = returning R_Rooms (GetRoomList E c)"
| "call E c Op_GetFunctionList = returning R_Functions (GetFunctionList E c)"
| "call E c (Op_GetSystemVariableList showText) =
     returning R_SystemVariables (GetSystemVariableList E c showText)"
| "call E c (Op_GetSystemVariable iseID showText) =
     returning R_SystemVariable (GetSystemVariable E c iseID showText)"
| "call E c (Op_RegisterToken description) = returning_error (RegisterToken E c description)"
| "call E c (Op_RevokeToken tokenID) = returning_error (RevokeToken E c tokenID)"
| "call E c (Op_GetMasterValue deviceIDs requestedNames) =
     returning R_Devices (GetMasterValue E c deviceIDs requestedNames)"
| "call E c (Op_ChangeMasterValue deviceIDs names values) =
     returning_error (ChangeMasterValue E c deviceIDs names values)"


subsection \<open>Reading a trace\<close>

text \<open>The requests a call sent, and the bodies it handed to the XML decoder.\<close>

fun requests :: "event list \<Rightarrow> URL list" where
  "requests [] = []"
| "requests (HTTP_Get u # tr) = u # requests tr"
| "requests (XML_Decode body # tr) = requests tr"

fun decoded :: "event list \<Rightarrow> string list" where
  "decoded [] = []"
| "decoded (HTTP_Get u # tr) = decoded tr"
| "decoded (XML_Decode body # tr) = body # decoded tr"

text \<open>
  The request that \<open>makeRequest\<close> and \<open>makeRawRequest\<close> build for an endpoint and a
  parameter map, when the URL parses.
\<close>

definition sent :: "Env \<Rightarrow> Client \<Rightarrow> string \<Rightarrow> (string \<rightharpoonup> string) \<Rightarrow> URL list" where
  "sent E c endpoint params =
     (case url_Parse E (BaseURL c @ ''/addons/xmlapi/'' @ endpoint) of
        None \<Rightarrow> []
      | Some u \<Rightarrow> [u\<lparr>Query := Set_params (Values_Set (Query u) ''sid'' (Token c)) params\<rparr>])"

text \<open>The values a request carries under the key \<open>sid\<close>.\<close>

definition sid_of :: "URL \<Rightarrow> string list option" where
  "sid_of u = Query u ''sid''"

subsection \<open>Sample values\<close>

text \<open>
  A controller that answers every request with status 200 and a fixed body, a second
  one that answers 404, and libraries that parse every URL and decode every body into
  fixed records.
\<close>

definition device_12345 :: Device where
  "device_12345 =
     \<lparr>Device.XMLName = \<lparr>Space = [], Local = ''device''\<rparr>, Device.Name = ''Dimmer'',
      Device.Address = ''LEQ0000001'', Device.IseID = ''12345'', Unreach = False,
      Config = False, DeviceType = ''HM-LC-Dim1T-FM'', InterfaceID = ''BidCos-RF'',
      Device.Channels = []\<rparr>"

definition device_67890 :: Device where
  "device_67890 =
     \<lparr>Device.XMLName = \<lparr>Space = [], Local = ''device''\<rparr>, Device.Name = ''Switch'',
      Device.Address = ''LEQ0000002'', Device.IseID = ''67890'', Unreach = True,
      Config = False, DeviceType = ''HM-LC-Sw1-FM'', InterfaceID = ''BidCos-RF'',
      Device.Channels = []\<rparr>"

definition sysvar_950 :: SystemVariable where
  "sysvar_950 =
     \<lparr>SystemVariable.XMLName = \<lparr>Space = [], Local = ''systemVariable''\<rparr>,
      SystemVariable.Name = ''Presence'', Variable = ''1'', SystemVariable.Value = ''true'',
      SystemVariable.ValueType = 2, SystemVariable.IseID = ''950'', Min = [], Max = [],
      Unit = [], SystemVariable.Type = ''2113'', Subtype = ''2'', Logged = False,
      SystemVariable.Visible = True, SystemVariable.Timestamp = 0,
      ValueName0 = ''absent'', ValueName1 = ''present'', ValueText = ''present''\<rparr>"

definition sysvar_951 :: SystemVariable where
  "sysvar_951 = sysvar_950\<lparr>SystemVariable.Name := ''Alarm'', SystemVariable.IseID := ''951''\<rparr>"

definition sample_Env :: Env where
  "sample_Env =
     \<lparr>LowerCase = caseless,
      url_Parse = (\<lambda>s. Some \<lparr>Location = s, Query = Map.empty\<rparr>),
      Decode_APIResponse = (\<lambda>r b. Some
        \<lparr>APIResponse.XMLName = \<lparr>Space = [], Local = ''result''\<rparr>, APIResponse.Devices = [],
         APIResponse.Programs = [], APIResponse.Rooms = [], APIResponse.Functions = [],
         APIResponse.SystemVariables = [], APIResponse.DeviceTypes = [], Version = []\<rparr>),
      Decode_DeviceListResponse = (\<lambda>r b. Some
        \<lparr>DeviceListResponse.XMLName = \<lparr>Space = [], Local = ''deviceList''\<rparr>,
         DeviceListResponse.Devices = [device_12345, device_67890]\<rparr>),
      Decode_StateListResponse = (\<lambda>r b. Some
        \<lparr>StateListResponse.XMLName = \<lparr>Space = [], Local = ''stateList''\<rparr>,
         StateListResponse.Devices = [device_12345, device_67890]\<rparr>),
      Decode_ProgramListResponse = (\<lambda>r b. Some
        \<lparr>ProgramListResponse.XMLName = \<lparr>Space = [], Local = ''programList''\<rparr>,
         ProgramListResponse.Programs = []\<rparr>),
      Decode_RoomListResponse = (\<lambda>r b. Some
        \<lparr>RoomListResponse.XMLName = \<lparr>Space = [], Local = ''roomList''\<rparr>,
         RoomListResponse.Rooms = []\<rparr>),
      Decode_FunctionListResponse = (\<lambda>r b. Some
        \<lparr>FunctionListResponse.XMLName = \<lparr>Space = [], Local = ''functionList''\<rparr>,
         FunctionListResponse.Functions = []\<rparr>),
      Decode_SystemVariableListResponse = (\<lambda>r b. Some
        \<lparr>SystemVariableListResponse.XMLName = \<lparr>Space = [], Local = ''systemVariables''\<rparr>,
         SystemVariableListResponse.SystemVariables = [sysvar_950, sysvar_951]\<rparr>),
      Decode_DeviceTypeListResponse = (\<lambda>r b. Some
        \<lparr>DeviceTypeListResponse.XMLName = \<lparr>Space = [], Local = ''deviceTypes''\<rparr>,
         DeviceTypeListResponse.DeviceTypes = []\<rparr>),
      Decode_VersionResponse = (\<lambda>r b. Some
        \<lparr>VersionResponse.XMLName = \<lparr>Space = [], Local = ''version''\<rparr>,
         VersionResponse.Value = [CHR 0x0A, CHR 0x20] @ ''1.20'' @ [CHR 0x0D, CHR 0x0A]\<rparr>),
      Unmarshal_APIResponse = (\<lambda>b. Some
        \<lparr>APIResponse.XMLName = \<lparr>Space = [], Local = ''result''\<rparr>, APIResponse.Devices = [],
         APIResponse.Programs = [], APIResponse.Rooms = [], APIResponse.Functions = [],
         APIResponse.SystemVariables = [sysvar_950], APIResponse.DeviceTypes = [],
         Version = []\<rparr>)\<rparr>"

definition sample_Env_empty :: Env where
  "sample_Env_empty =
     sample_Env
       \<lparr>Decode_SystemVariableListResponse := (\<lambda>r b. Some
          \<lparr>SystemVariableListResponse.XMLName = \<lparr>Space = [], Local = ''systemVariables''\<rparr>,
           SystemVariableListResponse.SystemVariables = []\<rparr>),
        Unmarshal_APIResponse := (\<lambda>b. Some
          \<lparr>APIResponse.XMLName = \<lparr>Space = [], Local = ''result''\<rparr>, APIResponse.Devices = [],
           APIResponse.Programs = [], APIResponse.Rooms = [], APIResponse.Functions = [],
           APIResponse.SystemVariables = [], APIResponse.DeviceTypes = [], Version = []\<rparr>)\<rparr>"

definition sample_Client :: Client where
  "sample_Client =
     \<lparr>BaseURL = ''https://192.168.1.100'', Token = ''your-token-here'',
      HTTPClient = (\<lambda>u. Some \<lparr>StatusCode = 200, Body = Some ''<result/>''\<rparr>)\<rparr>"

definition sample_Client_404 :: Client where
  "sample_Client_404 =
     sample_Client\<lparr>HTTPClient := (\<lambda>u. Some \<lparr>StatusCode = 404, Body = Some ''Not Found''\<rparr>)\<rparr>"

text \<open>
  A controller that answers \<^verbatim>\<open>statelist.cgi\<close> and \<^verbatim>\<open>version.cgi\<close> each with a document of its
  own and every other request with 404, and decoders that read the body they are given:
  each of the two documents decodes into the record it spells out, and any other body
  is a decoding error.
\<close>

definition statelist_doc :: string where
  \<open>statelist_doc =
     ''<stateList>'' @
     ''<device name="Dimmer" address="LEQ0000001" ise_id="12345" unreach="false" config="false" '' @
     ''device_type="HM-LC-Dim1T-FM" interface_id="BidCos-RF"/>'' @
     ''<device name="Switch" address="LEQ0000002" ise_id="67890" unreach="true" config="false" '' @
     ''device_type="HM-LC-Sw1-FM" interface_id="BidCos-RF"/>'' @
     ''</stateList>''\<close>

definition version_doc :: string where
  \<open>version_doc = ''<version>'' @ [CHR 0x0A, CHR 0x09] @ ''1.20 '' @ [CHR 0x0A] @ ''</version>''\<close>

definition sample_Env_reading :: Env where
  "sample_Env_reading =
     sample_Env
       \<lparr>Decode_StateListResponse := (\<lambda>r b.
          if b = statelist_doc then Some
            \<lparr>StateListResponse.XMLName = \<lparr>Space = [], Local = ''stateList''\<rparr>,
             StateListResponse.Devices = [device_12345, device_67890]\<rparr>
          else None),
        Decode_VersionResponse := (\<lambda>r b.
          if b = version_doc then Some
            \<lparr>VersionResponse.XMLName = \<lparr>Space = [], Local = ''version''\<rparr>,
             VersionResponse.Value = [CHR 0x0A, CHR 0x09] @ ''1.20 '' @ [CHR 0x0A]\<rparr>
          else None)\<rparr>"

definition sample_Client_reading :: Client where
  "sample_Client_reading =
     sample_Client
       \<lparr>HTTPClient := (\<lambda>u.
          if Location u = ''https://192.168.1.100/addons/xmlapi/statelist.cgi'' then
            Some \<lparr>StatusCode = 200, Body = Some statelist_doc\<rparr>
          else if Location u = ''https://192.168.1.100/addons/xmlapi/version.cgi'' then
            Some \<lparr>StatusCode = 200, Body = Some version_doc\<rparr>
          else Some \<lparr>StatusCode = 404, Body = Some ''Not Found''\<rparr>)\<rparr>"

text \<open>
  Two documents that are not valid UTF-8 (the byte \<open>0xE9\<close> is \<open>e\<close> with an acute accent
  in ISO 8859-1), with two names of that character set in their declarations.
\<close>

definition doc_latin1 :: string where
  \<open>doc_latin1 = ''<?xml version="1.0" encoding="latin1"?><v>caf'' @ [CHR 0xE9] @ ''</v>''\<close>

definition doc_iso :: string where
  \<open>doc_iso = ''<?xml version="1.0" encoding="ISO-8859-1"?><v>caf'' @ [CHR 0xE9] @ ''</v>''\<close>

section \<open>Properties\<close>

subsection \<open>Evaluation and traces\<close>

lemma char_of_nat_bits:
  "char_of (n::nat) = Char (odd n) (odd (n div 2)) (odd (n div 4)) (odd (n div 8))
      (odd (n div 16)) (odd (n div 32)) (odd (n div 64)) (odd (n div 128))"
  by (simp add: char_of_def bit_iff_odd)

lemma utf8_DecodeRune_ascii: "byte c < 0x80 \<Longrightarrow> utf8_DecodeRune (c # s) = (byte c, 1)"
  by (simp add: utf8_DecodeRune_def utf8_first_def Let_def)

lemma strings_Map_Nil: "strings_Map f [] = []"
  by (subst strings_Map.simps) simp

lemma strings_Map_Cons:
  "strings_Map f (c # s) =
     utf8_EncodeRune (f (fst (utf8_DecodeRune (c # s)))) @
     strings_Map f (drop (snd (utf8_DecodeRune (c # s))) (c # s))"
  by (subst strings_Map.simps) (simp add: Let_def split: prod.splits)

lemma strings_Map_ascii:
  "byte c < 0x80 \<Longrightarrow> strings_Map f (c # s) = utf8_EncodeRune (f (byte c)) @ strings_Map f s"
  by (simp add: strings_Map_Cons utf8_DecodeRune_ascii)

lemma strings_Map_invalid:
  "\<not> byte c < 0x80 \<Longrightarrow> utf8_DecodeRune (c # s) = (RuneError, 1) \<Longrightarrow>
   strings_Map f (c # s) = utf8_EncodeRune (f RuneError) @ strings_Map f s"
  by (simp add: strings_Map_Cons)

lemma replace_from_unroll:
  "replace_from (c # s) old new =
     (if old = [] then c # s
      else if prefix old (c # s) then new @ replace_from (drop (length old) (c # s)) old new
      else c # replace_from s old new)"
  by (subst replace_from.simps) simp

lemma requests_append: "requests (tr @ tr') = requests tr @ requests tr'"
  by (induction tr rule: requests.induct) simp_all

lemma decoded_append: "decoded (tr @ tr') = decoded tr @ decoded tr'"
  by (induction tr rule: decoded.induct) simp_all

lemma requests_makeRequest:
  "requests (snd (makeRequest E c endpoint params)) = sent E c endpoint params"
  by (simp add: makeRequest_def sent_def Let_def split: option.splits sum.splits)

lemma requests_makeRawRequest:
  "requests (snd (makeRawRequest E c endpoint params)) = sent E c endpoint params"
  by (simp add: makeRawRequest_def sent_def Let_def split: option.splits sum.splits)

lemma requests_makeRequest_main:
  "requests (snd (makeRequest_main E c endpoint params)) = sent E c endpoint params"
  by (simp add: makeRequest_main_def sent_def Let_def split: option.splits sum.splits)

lemma requests_decodeBody: "requests (snd (decodeBody E D msg f raw)) = requests (snd raw)"
  by (simp add: decodeBody_def requests_append split: prod.splits sum.splits option.splits)

lemma requests_errorOf: "requests (snd (errorOf r)) = requests (snd r)"
  by (simp add: errorOf_def split: prod.splits sum.splits)

lemma requests_returning: "requests (snd (returning R r)) = requests (snd r)"
  by (simp add: returning_def split: prod.splits sum.splits)

lemma requests_returning_error: "requests (snd (returning_error r)) = requests (snd r)"
  by (simp add: returning_error_def split: prod.splits option.splits)

lemma requests_GetSystemVariable:
  "requests (snd (GetSystemVariable E c iseID showText)) =
   sent E c ''sysvar.cgi'' [''ise_id'' \<mapsto> iseID, ''text'' \<mapsto> strconv_FormatBool showText]"
proof -
  have "requests (snd (case r of (Inl err, tr) \<Rightarrow> (Inl err, tr)
         | (Inr result, tr) \<Rightarrow>
             if P result then (Inl e, tr) else (Inr (f result), tr))) = requests (snd r)"
    for r :: "(error + SystemVariableListResponse) \<times> event list" and P e
      and f :: "SystemVariableListResponse \<Rightarrow> SystemVariable"
    by (simp split: prod.splits sum.splits)
  then show ?thesis
    by (simp add: GetSystemVariable_def Let_def requests_decodeBody requests_makeRawRequest
        strconv_FormatBool_def)
qed


lemma sent_sid:
  "u \<in> set (sent E c endpoint params) \<Longrightarrow>
   Query u ''sid'' = Some [case params ''sid'' of None \<Rightarrow> Token c | Some v \<Rightarrow> v]"
  by (auto simp: sent_def Set_params_def Values_Set_def split: option.splits)



subsection \<open>Valid UTF-8\<close>

lemma utf8_Valid_ascii [simp]: "byte c < 0x80 \<Longrightarrow> utf8_Valid (c # cs) = utf8_Valid cs"
  by (simp add: utf8_Valid.simps(2))

lemma utf8_Valid_statelist_doc: "utf8_Valid statelist_doc"
  by (simp add: statelist_doc_def)


lemma utf8_Valid_ascii_append:
  "\<forall>c \<in> set xs. byte c < 0x80 \<Longrightarrow> utf8_Valid (xs @ s) = utf8_Valid s"
  by (induction xs) simp_all

lemma in_accept_high:
  assumes "\<not> byte c < 0x80" "utf8_first (byte c) \<noteq> xx" "in_accept c a"
  shows "0x80 \<le> byte a"
  using assms by (simp add: in_accept_def utf8_first_def acceptRanges_def split: if_splits)

lemma utf8_Valid_2:
  assumes "\<not> byte c < 0x80" "utf8_first (byte c) mod 8 = 2"
  shows "utf8_Valid (c # cs) = (\<exists>a r. cs = a # r \<and> in_accept c a \<and> utf8_Valid r)"
proof -
  from assms have nx: "utf8_first (byte c) \<noteq> xx" by auto
  show ?thesis
  proof (cases cs)
    case Nil
    with assms nx show ?thesis by (simp add: utf8_Valid.simps(2) Let_def)
  next
    case (Cons a r)
    with assms nx show ?thesis by (auto simp: utf8_Valid.simps(2) Let_def in_accept_def)
  qed
qed

lemma utf8_Valid_3:
  assumes "\<not> byte c < 0x80" "utf8_first (byte c) mod 8 = 3"
  shows "utf8_Valid (c # cs) =
     (\<exists>a b r. cs = a # b # r \<and> in_accept c a \<and> cont b \<and> utf8_Valid r)"
proof -
  from assms have nx: "utf8_first (byte c) \<noteq> xx" by auto
  show ?thesis
  proof (cases cs)
    case Nil
    with assms nx show ?thesis by (simp add: utf8_Valid.simps(2) Let_def)
  next
    case a: (Cons a r)
    show ?thesis
    proof (cases r)
      case Nil
      with a assms nx show ?thesis by (simp add: utf8_Valid.simps(2) Let_def)
    next
      case (Cons b r')
      with a assms nx show ?thesis by (auto simp: utf8_Valid.simps(2) Let_def in_accept_def cont_def)
    qed
  qed
qed

lemma utf8_Valid_4:
  assumes "\<not> byte c < 0x80" "utf8_first (byte c) mod 8 = 4"
  shows "utf8_Valid (c # cs) =
     (\<exists>a b d r. cs = a # b # d # r \<and> in_accept c a \<and> cont b \<and> cont d \<and> utf8_Valid r)"
proof -
  from assms have nx: "utf8_first (byte c) \<noteq> xx" by auto
  show ?thesis
  proof (cases cs)
    case Nil
    with assms nx show ?thesis by (simp add: utf8_Valid.simps(2) Let_def)
  next
    case a: (Cons a r)
    show ?thesis
    proof (cases r)
      case Nil
      with a assms nx show ?thesis by (simp add: utf8_Valid.simps(2) Let_def)
    next
      case b: (Cons b r')
      show ?thesis
      proof (cases r')
        case Nil
        with a b assms nx show ?thesis by (simp add: utf8_Valid.simps(2) Let_def)
      next
        case (Cons d r'')
        with a b assms nx show ?thesis by (auto simp: utf8_Valid.simps(2) Let_def in_accept_def cont_def)
      qed
    qed
  qed
qed

lemma utf8_Valid_not_first:
  assumes "\<not> byte c < 0x80" "utf8_first (byte c) = xx"
  shows "\<not> utf8_Valid (c # cs)"
  using assms by (simp add: utf8_Valid.simps(2) Let_def)

subsection \<open>Replacing a substring\<close>

lemma replace_from_Nil [simp]: "replace_from [] old new = []"
  by (subst replace_from.simps) simp

lemma replace_from_prefix:
  "old \<noteq> [] \<Longrightarrow> replace_from (old @ s) old new = new @ replace_from s old new"
  by (subst replace_from.simps) simp

lemma replace_from_Cons:
  "old \<noteq> [] \<Longrightarrow> \<not> prefix old (c # s) \<Longrightarrow>
   replace_from (c # s) old new = c # replace_from s old new"
  by (subst replace_from.simps) simp

lemma replace_from_cases:
  assumes "old \<noteq> []"
  obtains (Nil) "s = []"
  | (Match) rest where "s = old @ rest" "replace_from s old new = new @ replace_from rest old new"
  | (Step) c cs where "s = c # cs" "\<not> prefix old s"
      "replace_from s old new = c # replace_from cs old new"
proof (cases "prefix old s")
  case True
  then obtain rest where "s = old @ rest" by (auto simp: prefix_def)
  with assms Match show ?thesis by (simp add: replace_from_prefix)
next
  case False
  show ?thesis
  proof (cases s)
    case Nil
    then show ?thesis by (rule that(1))
  next
    case (Cons c cs)
    with False assms Step show ?thesis by (simp add: replace_from_Cons)
  qed
qed

lemma Contains_prefix: "prefix sub s \<Longrightarrow> strings_Contains s sub"
  by (cases s) simp_all

lemma Contains_appendI: "strings_Contains ys sub \<Longrightarrow> strings_Contains (xs @ ys) sub"
proof (induction xs)
  case Nil
  then show ?case by simp
next
  case (Cons x xs)
  then show ?case by simp
qed

lemma Contains_append_skip:
  assumes "sub \<noteq> []" "hd sub \<notin> set xs"
  shows "strings_Contains (xs @ ys) sub = strings_Contains ys sub"
  using assms
proof (induction xs)
  case Nil
  then show ?case by simp
next
  case (Cons x xs)
  then have "\<not> prefix sub (x # xs @ ys)"
    by (cases sub) auto
  with Cons show ?case by simp
qed

lemma prefix_replace_from_back:
  assumes "old \<noteq> []" "new \<noteq> []" "hd new \<notin> set sub"
  shows "prefix sub (replace_from s old new) \<Longrightarrow> prefix sub s"
  using assms(3)
proof (induction sub arbitrary: s)
  case Nil
  show ?case by simp
next
  case (Cons q sub)
  show ?case
  proof -
    consider (Nil) "s = []"
      | (Match) rest where "s = old @ rest"
          "replace_from s old new = new @ replace_from rest old new"
      | (Step) c cs where "s = c # cs" "\<not> prefix old s"
          "replace_from s old new = c # replace_from cs old new"
      by (rule replace_from_cases [OF assms(1), where s = s and new = new])
    then show ?thesis
    proof cases
    case Nil
    with Cons.prems show ?thesis by simp
  next
    case (Match rest)
    with Cons.prems assms(2) show ?thesis
      by (cases new) auto
  next
    case (Step c cs)
    with Cons.prems have "q = c" "prefix sub (replace_from cs old new)" by simp_all
    moreover from Cons.prems have "hd new \<notin> set sub" by simp
    ultimately show ?thesis
      using Cons.IH [of cs] Step by simp
  qed
  qed
qed

lemma Contains_replace_from_back:
  assumes "old \<noteq> []" "new \<noteq> []" "sub \<noteq> []" "hd new \<notin> set sub" "hd sub \<notin> set new"
  shows "strings_Contains (replace_from s old new) sub \<Longrightarrow>
         \<exists>t. suffix t s \<and> prefix sub t \<and> \<not> prefix old t"
proof (induction "length s" arbitrary: s rule: less_induct)
  case less
  show ?case
  proof -
    consider (Nil) "s = []"
      | (Match) rest where "s = old @ rest"
          "replace_from s old new = new @ replace_from rest old new"
      | (Step) c cs where "s = c # cs" "\<not> prefix old s"
          "replace_from s old new = c # replace_from cs old new"
      by (rule replace_from_cases [OF assms(1), where s = s and new = new])
    then show ?thesis
    proof cases
    case Nil
    with less.prems assms(3) show ?thesis by simp
  next
    case (Match rest)
    with less.prems have "strings_Contains (replace_from rest old new) sub"
      by (simp add: Contains_append_skip [OF assms(3,5)])
    moreover have "length rest < length s"
      using Match assms(1) by simp
    ultimately obtain t where "suffix t rest" "prefix sub t" "\<not> prefix old t"
      using less.hyps by blast
    moreover from this Match have "suffix t s"
      by (simp add: suffix_appendI)
    ultimately show ?thesis
      by blast
  next
    case (Step c cs)
    with less.prems have "prefix sub (replace_from s old new) \<or>
        strings_Contains (replace_from cs old new) sub"
      by simp
    then show ?thesis
    proof
      assume "prefix sub (replace_from s old new)"
      then have "prefix sub s"
        by (rule prefix_replace_from_back [OF assms(1,2,4)])
      with Step show ?thesis by blast
    next
      assume "strings_Contains (replace_from cs old new) sub"
      then obtain t where "suffix t cs" "prefix sub t" "\<not> prefix old t"
        using less.hyps [of cs] Step by auto
      then show ?thesis
        using Step by (auto simp: suffix_Cons)
    qed
  qed
  qed
qed

lemma Contains_suffix: "suffix t s \<Longrightarrow> prefix sub t \<Longrightarrow> strings_Contains s sub"
  by (auto simp: suffix_def intro: Contains_appendI Contains_prefix)

lemma replace_from_removes:
  assumes "old \<noteq> []" "new \<noteq> []" "hd new \<notin> set old" "hd old \<notin> set new"
  shows "\<not> strings_Contains (replace_from s old new) old"
  using Contains_replace_from_back [OF assms(1,2,1,3,4), of s] by blast

lemma replace_from_keeps_absent:
  assumes "old \<noteq> []" "new \<noteq> []" "sub \<noteq> []" "hd new \<notin> set sub" "hd sub \<notin> set new"
    and "\<not> strings_Contains s sub"
  shows "\<not> strings_Contains (replace_from s old new) sub"
  using Contains_replace_from_back [OF assms(1-5), of s] assms(6) Contains_suffix by blast

lemma not_prefix_high:
  assumes "old \<noteq> []" "\<forall>p \<in> set old. byte p < 0x80" "0x80 \<le> byte a"
  shows "\<not> prefix old (a # r)"
  using assms by (cases old) auto

lemma replace_from_valid:
  assumes old: "old \<noteq> []" "\<forall>p \<in> set old. byte p < 0x80"
    and new: "\<forall>p \<in> set new. byte p < 0x80"
  shows "utf8_Valid s \<Longrightarrow> utf8_Valid (replace_from s old new)"
proof (induction "length s" arbitrary: s rule: less_induct)
  case less
  note high = not_prefix_high [OF old]
  show ?case
  proof (cases s)
    case Nil
    then show ?thesis by simp
  next
    case (Cons c cs)
    show ?thesis
    proof (cases "prefix old s")
      case True
      then obtain rest where s: "s = old @ rest"
        by (auto simp: prefix_def)
      with less.prems old have "utf8_Valid rest"
        by (simp add: utf8_Valid_ascii_append)
      moreover have "length rest < length s"
        using s old by simp
      ultimately have "utf8_Valid (replace_from rest old new)"
        by (rule less.hyps [rotated])
      then show ?thesis
        unfolding s using old new by (simp add: replace_from_prefix utf8_Valid_ascii_append)
    next
      case np: False
      then have step: "replace_from s old new = c # replace_from cs old new"
        using Cons old by (simp add: replace_from_Cons)
      show ?thesis
      proof (cases "byte c < 0x80")
        case True
        with less.prems Cons have "utf8_Valid cs" by simp
        then have "utf8_Valid (replace_from cs old new)"
          using less.hyps [of cs] Cons by simp
        with True show ?thesis by (simp add: step)
      next
        case False
        have nx: "utf8_first (byte c) \<noteq> xx"
          using less.prems False Cons utf8_Valid_not_first by blast
        from utf8_first_size [OF False nx] show ?thesis
        proof (elim disjE)
          assume sz: "utf8_first (byte c) mod 8 = 2"
          from less.prems Cons utf8_Valid_2 [OF False sz]
          obtain a r where cs: "cs = a # r" and a: "in_accept c a" and v: "utf8_Valid r"
            by auto
          from v have "utf8_Valid (replace_from r old new)"
            using less.hyps [of r] Cons cs by simp
          moreover have "replace_from cs old new = a # replace_from r old new"
            unfolding cs using old high [OF in_accept_high [OF False nx a]]
            by (simp add: replace_from_Cons)
          ultimately show ?thesis
            using a by (simp add: step utf8_Valid_2 [OF False sz])
        next
          assume sz: "utf8_first (byte c) mod 8 = 3"
          from less.prems Cons utf8_Valid_3 [OF False sz]
          obtain a b r where cs: "cs = a # b # r" and a: "in_accept c a" and b: "cont b"
            and v: "utf8_Valid r"
            by auto
          from v have "utf8_Valid (replace_from r old new)"
            using less.hyps [of r] Cons cs by simp
          moreover have "replace_from cs old new = a # b # replace_from r old new"
            unfolding cs using old high [OF in_accept_high [OF False nx a]] high [of b] b
            by (simp add: replace_from_Cons cont_def)
          ultimately show ?thesis
            using a b by (simp add: step utf8_Valid_3 [OF False sz])
        next
          assume sz: "utf8_first (byte c) mod 8 = 4"
          from less.prems Cons utf8_Valid_4 [OF False sz]
          obtain a b d r where cs: "cs = a # b # d # r" and a: "in_accept c a" and b: "cont b"
            and d: "cont d" and v: "utf8_Valid r"
            by auto
          from v have "utf8_Valid (replace_from r old new)"
            using less.hyps [of r] Cons cs by simp
          moreover have "replace_from cs old new = a # b # d # replace_from r old new"
            unfolding cs using old high [OF in_accept_high [OF False nx a]] high [of b] b
              high [of d] d
            by (simp add: replace_from_Cons cont_def)
          ultimately show ?thesis
            using a b d by (simp add: step utf8_Valid_4 [OF False sz])
        qed
      qed
    qed
  qed
qed

lemma ISO8859_1_valid: "utf8_Valid (ISO8859_1_decode data)"
proof (induction data)
  case Nil
  show ?case by (simp add: ISO8859_1_decode_def)
next
  case (Cons c data)
  show ?case
  proof (cases "byte c < 0x80")
    case True
    with Cons show ?thesis by (simp add: ISO8859_1_decode_def)
  next
    case False
    define b where "b = byte c"
    have b: "0x80 \<le> b" "b < 256" using False by (simp_all add: b_def)
    then have d: "b div 64 = 2 \<or> b div 64 = 3" by auto
    have m: "b mod 64 < 64" by simp
    let ?x = "char_of (0xC0 + b div 64) :: char" and ?y = "char_of (0x80 + b mod 64) :: char"
    have x: "byte ?x = 0xC0 + b div 64"
      using d by auto
    have y: "byte ?y = 0x80 + b mod 64"
      using m by simp
    have e: "utf8_EncodeRune b = [?x, ?y]"
      using b by (simp add: utf8_EncodeRune_def)
    have nx: "\<not> byte ?x < 0x80" unfolding x by simp
    have sz: "utf8_first (byte ?x) mod 8 = 2"
      unfolding x using d by (auto simp: utf8_first_def)
    have acc: "in_accept ?x ?y"
      unfolding in_accept_def x y using d m by (auto simp: utf8_first_def acceptRanges_def)
    from Cons acc show ?thesis
      using False
      by (simp add: ISO8859_1_decode_def b_def [symmetric] e utf8_Valid_2 [OF nx sz])
  qed
qed

subsection \<open>Validation of parallel lists\<close>

text \<open>
  C1. When the parallel lists passed to \<open>ChangeState\<close> (device ids and new values) or to
  \<open>ChangeMasterValue\<close> (device ids, names and values) differ in length, the call
  returns the validation error and its trace is empty: no request was sent. The same
  holds for the two operations as \<^verbatim>\<open>homematic/main.go\<close> has them.
\<close>

theorem mismatched_lists_fail_before_request:
  "(length deviceIDs \<noteq> length newValues \<longrightarrow>
      ChangeState E c deviceIDs newValues =
        (Some (Errorf ''device IDs and new values must have the same length''), []) \<and>
      ChangeState_main E c deviceIDs newValues =
        (Some (Errorf ''device IDs and new values must have the same length''), [])) \<and>
   (length deviceIDs \<noteq> length names \<or> length names \<noteq> length values \<or>
      length deviceIDs \<noteq> length values \<longrightarrow>
      ChangeMasterValue E c deviceIDs names values =
        (Some (Errorf ''device IDs, names, and values must have the same length''), []) \<and>
      ChangeMasterValue_main E c deviceIDs names values =
        (Some (Errorf ''device IDs, names, and values must have the same length''), []))"
  by (auto simp: ChangeState_def ChangeState_main_def ChangeMasterValue_def
      ChangeMasterValue_main_def)

theorem mismatched_lists_fail_before_request_witness:
  "length [''12345'', ''67890''] \<noteq> length [''0.20''] \<and>
   ChangeState sample_Env sample_Client [''12345'', ''67890''] [''0.20''] =
     (Some (Errorf ''device IDs and new values must have the same length''), []) \<and>
   ChangeState_main sample_Env sample_Client [''12345'', ''67890''] [''0.20''] =
     (Some (Errorf ''device IDs and new values must have the same length''), []) \<and>
   length [''12345'', ''67890''] \<noteq> length [''0.20''] \<and>
   ChangeMasterValue sample_Env sample_Client [''12345'', ''67890''] [''LEVEL'', ''STATE''] [''0.20''] =
     (Some (Errorf ''device IDs, names, and values must have the same length''), []) \<and>
   ChangeMasterValue_main sample_Env sample_Client [''12345'', ''67890''] [''LEVEL'', ''STATE'']
       [''0.20''] =
     (Some (Errorf ''device IDs, names, and values must have the same length''), [])"
  using mismatched_lists_fail_before_request
    [of "[''12345'', ''67890'']" "[''0.20'']" sample_Env sample_Client
       "[''LEVEL'', ''STATE'']" "[''0.20'']"]
  by simp



subsection \<open>The authentication token\<close>

text \<open>The parameter map of an operation has no entry \<open>sid\<close>, except in \<open>RevokeToken\<close>.\<close>

lemma call_sid:
  assumes "u \<in> set (requests (snd (call E c op)))"
  shows "Query u ''sid'' =
     Some [case op of Op_RevokeToken tokenID \<Rightarrow> tokenID | _ \<Rightarrow> Token c]"
proof (cases op)
  case Op_GetVersion
  with assms show ?thesis
    by (auto simp: GetVersion_def requests_returning requests_decodeBody requests_makeRawRequest
        dest!: sent_sid)
next
  case (Op_GetDeviceList deviceIDs showInternal showRemote)
  with assms show ?thesis
    by (auto simp: GetDeviceList_def Let_def requests_returning requests_decodeBody
        requests_makeRawRequest dest!: sent_sid split: if_splits)
next
  case Op_GetDeviceTypes
  with assms show ?thesis
    by (auto simp: GetDeviceTypes_def requests_returning requests_decodeBody
        requests_makeRawRequest dest!: sent_sid)
next
  case (Op_GetStateList deviceID showInternal showRemote)
  with assms show ?thesis
    by (auto simp: GetStateList_def Let_def requests_returning requests_decodeBody
        requests_makeRawRequest dest!: sent_sid split: if_splits)
next
  case (Op_GetState deviceIDs channelIDs datapointIDs)
  with assms show ?thesis
    by (auto simp: GetState_def Let_def requests_returning requests_decodeBody
        requests_makeRawRequest dest!: sent_sid split: if_splits)
next
  case (Op_ChangeState deviceIDs newValues)
  with assms show ?thesis
    by (auto simp: ChangeState_def Let_def requests_returning_error requests_errorOf
        requests_makeRequest dest!: sent_sid split: if_splits)
next
  case Op_GetProgramList
  with assms show ?thesis
    by (auto simp: GetProgramList_def requests_returning requests_decodeBody
        requests_makeRawRequest dest!: sent_sid)
next
  case (Op_RunProgram programID condCheck)
  with assms show ?thesis
    by (auto simp: RunProgram_def Let_def requests_returning_error requests_errorOf
        requests_makeRequest dest!: sent_sid split: if_splits)
next
  case (Op_ChangeProgramActions programID active visible)
  with assms show ?thesis
    by (auto simp: ChangeProgramActions_def Let_def requests_returning_error requests_errorOf
        requests_makeRequest dest!: sent_sid split: if_splits option.splits)
next
  case Op_GetRoomList
  with assms show ?thesis
    by (auto simp: GetRoomList_def requests_returning requests_decodeBody
        requests_makeRawRequest dest!: sent_sid)
next
  case Op_GetFunctionList
  with assms show ?thesis
    by (auto simp: GetFunctionList_def requests_returning requests_decodeBody
        requests_makeRawRequest dest!: sent_sid)
next
  case (Op_GetSystemVariableList showText)
  with assms show ?thesis
    by (auto simp: GetSystemVariableList_def Let_def requests_returning requests_decodeBody
        requests_makeRawRequest dest!: sent_sid split: if_splits)
next
  case (Op_GetSystemVariable iseID showText)
  with assms show ?thesis
    by (auto simp: requests_returning requests_GetSystemVariable dest!: sent_sid)
next
  case (Op_RegisterToken description)
  with assms show ?thesis
    by (auto simp: RegisterToken_def Let_def requests_returning_error requests_errorOf
        requests_makeRequest dest!: sent_sid)
next
  case (Op_RevokeToken tokenID)
  with assms show ?thesis
    by (auto simp: RevokeToken_def Let_def requests_returning_error requests_errorOf
        requests_makeRequest dest!: sent_sid)
next
  case (Op_GetMasterValue deviceIDs requestedNames)
  with assms show ?thesis
    by (auto simp: GetMasterValue_def Let_def requests_returning requests_decodeBody
        requests_makeRawRequest dest!: sent_sid split: if_splits)
next
  case (Op_ChangeMasterValue deviceIDs names vals)
  with assms show ?thesis
    by (auto simp: ChangeMasterValue_def Let_def requests_returning_error requests_errorOf
        requests_makeRequest dest!: sent_sid split: if_splits)
qed

text \<open>
  C5, as amended. Every request that \<open>makeRequest\<close> or \<open>makeRawRequest\<close> sends has exactly
  one value under the key \<open>sid\<close>: the client's token, unless the parameter map has an
  entry \<open>sid\<close> of its own, which then replaces the token. Among the public operations
  only \<open>RevokeToken\<close> passes such a map: its request carries the token to revoke, every
  other operation's request carries the client's token.
\<close>

theorem requests_carry_sid:
  "(\<forall>u \<in> set (requests (snd (makeRequest E c endpoint params))).
      Query u ''sid'' = Some [case params ''sid'' of None \<Rightarrow> Token c | Some v \<Rightarrow> v]) \<and>
   (\<forall>u \<in> set (requests (snd (makeRawRequest E c endpoint params))).
      Query u ''sid'' = Some [case params ''sid'' of None \<Rightarrow> Token c | Some v \<Rightarrow> v]) \<and>
   (\<forall>u \<in> set (requests (snd (call E c op))).
      Query u ''sid'' = Some [case op of Op_RevokeToken tokenID \<Rightarrow> tokenID | _ \<Rightarrow> Token c])"
  by (simp add: requests_makeRequest requests_makeRawRequest sent_sid call_sid)

theorem requests_carry_sid_witness:
  "map sid_of (requests (snd (call sample_Env sample_Client (Op_GetStateList ''12345'' True False)))) =
     [Some [''your-token-here'']] \<and>
   map sid_of (requests (snd (call sample_Env sample_Client (Op_RevokeToken ''token-to-revoke'')))) =
     [Some [''token-to-revoke'']]"
proof -
  have l: "length (requests (snd (call sample_Env sample_Client
        (Op_GetStateList ''12345'' True False)))) = 1"
    "length (requests (snd (call sample_Env sample_Client
        (Op_RevokeToken ''token-to-revoke'')))) = 1"
    by (simp_all add: GetStateList_def RevokeToken_def requests_returning requests_returning_error
        requests_errorOf requests_decodeBody requests_makeRequest requests_makeRawRequest
        sent_def sample_Env_def)
  have one: "map f xs = [v]" if "length xs = 1" "\<forall>x \<in> set xs. f x = v"
    for f :: "URL \<Rightarrow> string list option" and xs v
    using that by (cases xs) auto
  from requests_carry_sid
      [of sample_Env sample_Client "[]" Map.empty "Op_GetStateList ''12345'' True False"]
    requests_carry_sid
      [of sample_Env sample_Client "[]" Map.empty "Op_RevokeToken ''token-to-revoke''"]
  have "\<forall>u \<in> set (requests (snd (call sample_Env sample_Client
          (Op_GetStateList ''12345'' True False)))). sid_of u = Some [''your-token-here'']"
    "\<forall>u \<in> set (requests (snd (call sample_Env sample_Client
          (Op_RevokeToken ''token-to-revoke'')))). sid_of u = Some [''token-to-revoke'']"
    by (simp_all add: sid_of_def sample_Client_def)
  with l show ?thesis
    by (simp add: one)
qed

text \<open>
  C5 as stated fails for \<open>RevokeToken\<close>: the one request it sends carries the token to
  revoke under \<open>sid\<close>, not the token of the client.
\<close>

theorem revoke_request_carries_other_token:
  "map sid_of (requests (snd (call sample_Env sample_Client (Op_RevokeToken ''token-to-revoke'')))) =
     [Some [''token-to-revoke'']] \<and>
   map sid_of (requests (snd (call sample_Env sample_Client (Op_RevokeToken ''token-to-revoke'')))) \<noteq>
     [Some [Token sample_Client]]"
  by (simp add: RevokeToken_def requests_returning_error requests_errorOf requests_makeRequest
      sent_def sample_Env_def sample_Client_def Set_params_def Values_Set_def sid_of_def)

subsection \<open>Conversion to UTF-8\<close>

text \<open>
  C2. On bytes that are valid UTF-8, \<open>convertToUTF8\<close> returns the very same bytes and
  no error.
\<close>

theorem convertToUTF8_valid_identity:
  "utf8_Valid data \<Longrightarrow> convertToUTF8 tbl data = Inr data"
  by (simp add: convertToUTF8_def)

theorem convertToUTF8_valid_identity_witness:
  \<open>utf8_Valid (''<?xml version="1.0" encoding="UTF-8"?><v>caf'' @ [CHR 0xC3, CHR 0xA9] @ ''</v>'') \<and>
   convertToUTF8 caseless
     (''<?xml version="1.0" encoding="UTF-8"?><v>caf'' @ [CHR 0xC3, CHR 0xA9] @ ''</v>'') =
   Inr (''<?xml version="1.0" encoding="UTF-8"?><v>caf'' @ [CHR 0xC3, CHR 0xA9] @ ''</v>'')\<close>
proof -
  have v: \<open>utf8_Valid
      (''<?xml version="1.0" encoding="UTF-8"?><v>caf'' @ [CHR 0xC3, CHR 0xA9] @ ''</v>'')\<close>
    by (simp add: utf8_Valid.simps(2) utf8_first_def acceptRanges_def)
  from v convertToUTF8_valid_identity [OF v, of caseless] show ?thesis by simp
qed

text \<open>
  On bytes that are not valid UTF-8 and whose first 200 bytes, in lower case, contain
  \<open>iso-8859-1\<close> or \<open>latin1\<close>, \<open>convertToUTF8\<close> returns no error but bytes that are valid
  UTF-8, in which neither \<open>ISO-8859-1\<close> nor \<open>iso-8859-1\<close> occurs.
\<close>

lemma convertToUTF8_latin1_valid:
  assumes "\<not> utf8_Valid data"
    and "strings_Contains (strings_ToLower tbl (take (min_go (length data) 200) data)) ''iso-8859-1'' \<or>
         strings_Contains (strings_ToLower tbl (take (min_go (length data) 200) data)) ''latin1''"
  shows "\<exists>out. convertToUTF8 tbl data = Inr out \<and> utf8_Valid out \<and>
           \<not> strings_Contains out ''ISO-8859-1'' \<and> \<not> strings_Contains out ''iso-8859-1''"
proof -
  define s0 where "s0 = ISO8859_1_decode data"
  define s1 where "s1 = replace_from s0 ''ISO-8859-1'' ''UTF-8''"
  define out where "out = replace_from s1 ''iso-8859-1'' ''utf-8''"
  have conv: "convertToUTF8 tbl data = Inr out"
    using assms
    by (simp add: convertToUTF8_def ISO8859_1_Bytes_def strings_ReplaceAll_def out_def s1_def
        s0_def)
  have "utf8_Valid s0"
    unfolding s0_def by (rule ISO8859_1_valid)
  then have "utf8_Valid s1"
    unfolding s1_def by (intro replace_from_valid) simp_all
  then have valid: "utf8_Valid out"
    unfolding out_def by (intro replace_from_valid) simp_all
  have "\<not> strings_Contains s1 ''ISO-8859-1''"
    unfolding s1_def by (intro replace_from_removes) simp_all
  then have no_upper: "\<not> strings_Contains out ''ISO-8859-1''"
    unfolding out_def by (intro replace_from_keeps_absent) simp_all
  have no_lower: "\<not> strings_Contains out ''iso-8859-1''"
    unfolding out_def by (intro replace_from_removes) simp_all
  from conv valid no_upper no_lower show ?thesis by blast
qed

text \<open>
  C3 fails on a document whose declaration names the character set \<open>latin1\<close>.
  \<open>convertToUTF8\<close> finds that name in the first 200 bytes and transcodes the bytes into
  valid UTF-8, but the declaration of the result still says \<open>latin1\<close>: of the names it
  looks for, only the spellings \<open>ISO-8859-1\<close> and \<open>iso-8859-1\<close> are replaced, although the
  comment on these lines reads \<^verbatim>\<open>Replace encoding declaration with UTF-8\<close>. The decoder
  then asks \<open>charsetReader\<close> for \<open>latin1\<close> and is given the ISO 8859-1 decoder, which
  turns the two bytes of the converted letter into four. The same document declared
  \<open>ISO-8859-1\<close> comes back with its declaration rewritten.
\<close>

theorem convertToUTF8_keeps_latin1_label:
  \<open>\<not> utf8_Valid doc_latin1 \<and>
   strings_Contains (strings_ToLower caseless (take (min_go (length doc_latin1) 200) doc_latin1))
     ''latin1'' \<and>
   convertToUTF8 caseless doc_latin1 =
     Inr (''<?xml version="1.0" encoding="latin1"?><v>caf'' @ [CHR 0xC3, CHR 0xA9] @ ''</v>'') \<and>
   charsetReader caseless ''latin1''
     (''<?xml version="1.0" encoding="latin1"?><v>caf'' @ [CHR 0xC3, CHR 0xA9] @ ''</v>'') =
     Inr (transform_NewReader
       (''<?xml version="1.0" encoding="latin1"?><v>caf'' @ [CHR 0xC3, CHR 0xA9] @ ''</v>'')
       ISO8859_1) \<and>
   ISO8859_1_decode
     (''<?xml version="1.0" encoding="latin1"?><v>caf'' @ [CHR 0xC3, CHR 0xA9] @ ''</v>'') =
     ''<?xml version="1.0" encoding="latin1"?><v>caf'' @ [CHR 0xC3, CHR 0x83, CHR 0xC2, CHR 0xA9] @
     ''</v>'' \<and>
   \<not> utf8_Valid doc_iso \<and>
   convertToUTF8 caseless doc_iso =
     Inr (''<?xml version="1.0" encoding="UTF-8"?><v>caf'' @ [CHR 0xC3, CHR 0xA9] @ ''</v>'')\<close>
proof -
  have d: "utf8_DecodeRune (CHR 0xE9 # ''</v>'') = (RuneError, 1)"
    by (simp add: utf8_DecodeRune_def utf8_first_def acceptRanges_def Let_def)
  have v1: "\<not> utf8_Valid doc_latin1"
    by (simp add: doc_latin1_def utf8_Valid.simps(2) utf8_first_def Let_def)
  have l1: \<open>strings_ToLower caseless (take (min_go (length doc_latin1) 200) doc_latin1) =
      ''<?xml version="1.0" encoding="latin1"?><v>caf'' @ [CHR 0xEF, CHR 0xBF, CHR 0xBD] @ ''</v>''\<close>
    by (simp add: doc_latin1_def min_go_def strings_ToLower_def strings_Map_ascii
        strings_Map_invalid d strings_Map_Nil unicode_ToLower_def caseless_def
        utf8_EncodeRune_def char_of_nat_bits)
  have h1: "strings_Contains
      (strings_ToLower caseless (take (min_go (length doc_latin1) 200) doc_latin1)) ''latin1''"
    unfolding l1 by simp
  have e1: \<open>convertToUTF8 caseless doc_latin1 =
      Inr (''<?xml version="1.0" encoding="latin1"?><v>caf'' @ [CHR 0xC3, CHR 0xA9] @ ''</v>'')\<close>
    using v1 h1
    by (simp add: convertToUTF8_def)
      (simp add: doc_latin1_def ISO8859_1_Bytes_def ISO8859_1_decode_def strings_ReplaceAll_def replace_from_unroll
        utf8_EncodeRune_def char_of_nat_bits)
  have lo: "strings_ToLower caseless ''latin1'' = ''latin1''"
    by (simp add: strings_ToLower_def strings_Map_ascii strings_Map_Nil unicode_ToLower_def)
  have r1: \<open>charsetReader caseless ''latin1''
     (''<?xml version="1.0" encoding="latin1"?><v>caf'' @ [CHR 0xC3, CHR 0xA9] @ ''</v>'') =
     Inr (transform_NewReader
       (''<?xml version="1.0" encoding="latin1"?><v>caf'' @ [CHR 0xC3, CHR 0xA9] @ ''</v>'')
       ISO8859_1)\<close>
    by (simp add: charsetReader_def lo)
  have t1: \<open>ISO8859_1_decode
     (''<?xml version="1.0" encoding="latin1"?><v>caf'' @ [CHR 0xC3, CHR 0xA9] @ ''</v>'') =
     ''<?xml version="1.0" encoding="latin1"?><v>caf'' @ [CHR 0xC3, CHR 0x83, CHR 0xC2, CHR 0xA9] @
     ''</v>''\<close>
    by (simp add: ISO8859_1_decode_def utf8_EncodeRune_def char_of_nat_bits)
  have v2: "\<not> utf8_Valid doc_iso"
    by (simp add: doc_iso_def utf8_Valid.simps(2) utf8_first_def Let_def)
  have l2: \<open>strings_ToLower caseless (take (min_go (length doc_iso) 200) doc_iso) =
      ''<?xml version="1.0" encoding="iso-8859-1"?><v>caf'' @ [CHR 0xEF, CHR 0xBF, CHR 0xBD] @ ''</v>''\<close>
    by (simp add: doc_iso_def min_go_def strings_ToLower_def strings_Map_ascii
        strings_Map_invalid d strings_Map_Nil unicode_ToLower_def caseless_def
        utf8_EncodeRune_def char_of_nat_bits)
  have h2: "strings_Contains (strings_ToLower caseless (take (min_go (length doc_iso) 200) doc_iso))
      ''iso-8859-1''"
    unfolding l2 by simp
  have e2: \<open>convertToUTF8 caseless doc_iso =
      Inr (''<?xml version="1.0" encoding="UTF-8"?><v>caf'' @ [CHR 0xC3, CHR 0xA9] @ ''</v>'')\<close>
    using v2 h2
    by (simp add: convertToUTF8_def)
      (simp add: doc_iso_def ISO8859_1_Bytes_def ISO8859_1_decode_def strings_ReplaceAll_def replace_from_unroll
        utf8_EncodeRune_def char_of_nat_bits)
  from v1 h1 e1 r1 t1 v2 e2 show ?thesis by blast
qed

subsection \<open>A status other than 200\<close>

lemma makeRequest_not_200:
  assumes "u \<in> set (sent E c endpoint params)" "HTTPClient c u = Some resp" "StatusCode resp \<noteq> 200"
  shows "makeRequest E c endpoint params = (Inl (HTTPError (StatusCode resp)), [HTTP_Get u])"
proof -
  from assms(1) obtain u0 where p: "url_Parse E (BaseURL c @ ''/addons/xmlapi/'' @ endpoint) = Some u0"
    and u: "u = u0\<lparr>Query := Set_params (Values_Set (Query u0) ''sid'' (Token c)) params\<rparr>"
    by (cases "url_Parse E (BaseURL c @ ''/addons/xmlapi/'' @ endpoint)") (simp_all add: sent_def)
  from assms(2,3) p show ?thesis
    unfolding u by (simp add: makeRequest_def Let_def)
qed

lemma makeRawRequest_not_200:
  assumes "u \<in> set (sent E c endpoint params)" "HTTPClient c u = Some resp" "StatusCode resp \<noteq> 200"
  shows "makeRawRequest E c endpoint params = (Inl (HTTPError (StatusCode resp)), [HTTP_Get u])"
proof -
  from assms(1) obtain u0 where p: "url_Parse E (BaseURL c @ ''/addons/xmlapi/'' @ endpoint) = Some u0"
    and u: "u = u0\<lparr>Query := Set_params (Values_Set (Query u0) ''sid'' (Token c)) params\<rparr>"
    by (cases "url_Parse E (BaseURL c @ ''/addons/xmlapi/'' @ endpoint)") (simp_all add: sent_def)
  from assms(2,3) p show ?thesis
    unfolding u by (simp add: makeRawRequest_def Let_def)
qed

lemma decodeBody_Inl: "decodeBody E D msg f (Inl err, tr) = (Inl err, tr)"
  by (simp add: decodeBody_def)

lemma errorOf_Inl: "errorOf (Inl err, tr) = (Some err, tr)"
  by (simp add: errorOf_def)

lemma returning_Inl: "returning R (Inl err, tr) = (Inl err, tr)"
  by (simp add: returning_def)

lemma returning_error_Some: "returning_error (Some err, tr) = (Inl err, tr)"
  by (simp add: returning_error_def)

lemma raw_op_not_200:
  assumes "u \<in> set (sent E c endpoint params)" "HTTPClient c u = Some resp" "StatusCode resp \<noteq> 200"
  shows "returning R (decodeBody E D msg f (makeRawRequest E c endpoint params)) =
     (Inl (HTTPError (StatusCode resp)), [HTTP_Get u])"
  by (simp add: makeRawRequest_not_200 [OF assms] decodeBody_Inl returning_Inl)

lemma api_op_not_200:
  assumes "u \<in> set (sent E c endpoint params)" "HTTPClient c u = Some resp" "StatusCode resp \<noteq> 200"
  shows "returning_error (errorOf (makeRequest E c endpoint params)) =
     (Inl (HTTPError (StatusCode resp)), [HTTP_Get u])"
  by (simp add: makeRequest_not_200 [OF assms] errorOf_Inl returning_error_Some)

lemma call_not_200:
  assumes u: "u \<in> set (requests (snd (call E c op)))"
    and r: "HTTPClient c u = Some resp" "StatusCode resp \<noteq> 200"
  shows "call E c op = (Inl (HTTPError (StatusCode resp)), [HTTP_Get u])"
proof (cases op)
  case Op_GetVersion
  with u have "u \<in> set (sent E c ''version.cgi'' Map.empty)"
    by (simp add: GetVersion_def requests_returning requests_decodeBody requests_makeRawRequest)
  from raw_op_not_200 [OF this r] Op_GetVersion show ?thesis
    by (simp add: GetVersion_def)
next
  case (Op_GetDeviceList deviceIDs showInternal showRemote)
  define params :: "string \<rightharpoonup> string" where "params =
     (let params = Map.empty;
          params = (if length deviceIDs > 0
                    then params(''device_id'' \<mapsto> strings_Join deviceIDs '','') else params);
          params = (if showInternal then params(''show_internal'' \<mapsto> ''1'') else params);
          params = (if showRemote then params(''show_remote'' \<mapsto> ''1'') else params)
      in params)"
  have d: "GetDeviceList E c deviceIDs showInternal showRemote =
      decodeBody E Decode_DeviceListResponse ''failed to parse XML'' DeviceListResponse.Devices
           (makeRawRequest E c ''devicelist.cgi'' params)"
    by (simp add: GetDeviceList_def params_def Let_def)
  from u Op_GetDeviceList have "u \<in> set (sent E c ''devicelist.cgi'' params)"
    by (simp add: d requests_returning requests_decodeBody requests_makeRawRequest)
  from raw_op_not_200 [OF this r] Op_GetDeviceList show ?thesis
    by (simp add: d)
next
  case Op_GetDeviceTypes
  with u have "u \<in> set (sent E c ''devicetypelist.cgi'' Map.empty)"
    by (simp add: GetDeviceTypes_def requests_returning requests_decodeBody requests_makeRawRequest)
  from raw_op_not_200 [OF this r] Op_GetDeviceTypes show ?thesis
    by (simp add: GetDeviceTypes_def)
next
  case (Op_GetStateList deviceID showInternal showRemote)
  define params :: "string \<rightharpoonup> string" where "params =
     (let params = Map.empty;
          params = (if showInternal then params(''show_internal'' \<mapsto> ''1'') else params);
          params = (if showRemote then params(''show_remote'' \<mapsto> ''1'') else params)
      in params)"
  obtain f where d: "GetStateList E c deviceID showInternal showRemote =
      decodeBody E Decode_StateListResponse ''failed to parse XML'' f
           (makeRawRequest E c ''statelist.cgi'' params)"
    by (simp add: GetStateList_def params_def Let_def)
  from u Op_GetStateList have "u \<in> set (sent E c ''statelist.cgi'' params)"
    by (simp add: d requests_returning requests_decodeBody requests_makeRawRequest)
  from raw_op_not_200 [OF this r] Op_GetStateList show ?thesis
    by (simp add: d)
next
  case (Op_GetState deviceIDs channelIDs datapointIDs)
  define params :: "string \<rightharpoonup> string" where "params =
     (let params = Map.empty;
          params = (if length deviceIDs > 0
                    then params(''device_id'' \<mapsto> strings_Join deviceIDs '','') else params);
          params = (if length channelIDs > 0
                    then params(''channel_id'' \<mapsto> strings_Join channelIDs '','') else params);
          params = (if length datapointIDs > 0
                    then params(''datapoint_id'' \<mapsto> strings_Join datapointIDs '','') else params)
      in params)"
  have d: "GetState E c deviceIDs channelIDs datapointIDs =
      decodeBody E Decode_StateListResponse ''failed to parse XML'' StateListResponse.Devices
           (makeRawRequest E c ''state.cgi'' params)"
    by (simp add: GetState_def params_def Let_def)
  from u Op_GetState have "u \<in> set (sent E c ''state.cgi'' params)"
    by (simp add: d requests_returning requests_decodeBody requests_makeRawRequest)
  from raw_op_not_200 [OF this r] Op_GetState show ?thesis
    by (simp add: d)
next
  case (Op_ChangeState deviceIDs newValues)
  show ?thesis
  proof (cases "length deviceIDs \<noteq> length newValues")
    case True
    with u Op_ChangeState show ?thesis
      by (simp add: ChangeState_def returning_error_def)
  next
    case False
    then have d: "ChangeState E c deviceIDs newValues =
        errorOf (makeRequest E c ''statechange.cgi''
          [''ise_id'' \<mapsto> strings_Join deviceIDs '','', ''new_value'' \<mapsto> strings_Join newValues '',''])"
      by (simp add: ChangeState_def)
    from u Op_ChangeState have "u \<in> set (sent E c ''statechange.cgi''
          [''ise_id'' \<mapsto> strings_Join deviceIDs '','', ''new_value'' \<mapsto> strings_Join newValues '',''])"
      by (simp add: d requests_returning_error requests_errorOf requests_makeRequest)
    from api_op_not_200 [OF this r] Op_ChangeState show ?thesis
      by (simp add: d)
  qed
next
  case Op_GetProgramList
  with u have "u \<in> set (sent E c ''programlist.cgi'' Map.empty)"
    by (simp add: GetProgramList_def requests_returning requests_decodeBody requests_makeRawRequest)
  from raw_op_not_200 [OF this r] Op_GetProgramList show ?thesis
    by (simp add: GetProgramList_def)
next
  case (Op_RunProgram programID condCheck)
  define params :: "string \<rightharpoonup> string" where "params =
     (let params = [''program_id'' \<mapsto> programID];
          params = (if condCheck then params(''cond_check'' \<mapsto> ''1'') else params)
      in params)"
  have d: "RunProgram E c programID condCheck = errorOf (makeRequest E c ''runprogram.cgi'' params)"
    by (simp add: RunProgram_def params_def Let_def)
  from u Op_RunProgram have "u \<in> set (sent E c ''runprogram.cgi'' params)"
    by (simp add: d requests_returning_error requests_errorOf requests_makeRequest)
  from api_op_not_200 [OF this r] Op_RunProgram show ?thesis
    by (simp add: d)
next
  case (Op_ChangeProgramActions programID active visible)
  define params :: "string \<rightharpoonup> string" where "params =
     (let params = [''program_id'' \<mapsto> programID];
          params = (case active of None \<Rightarrow> params
                    | Some a \<Rightarrow> params(''active'' \<mapsto> strconv_FormatBool a));
          params = (case visible of None \<Rightarrow> params
                    | Some v \<Rightarrow> params(''visible'' \<mapsto> strconv_FormatBool v))
      in params)"
  have d: "ChangeProgramActions E c programID active visible =
      errorOf (makeRequest E c ''programactions.cgi'' params)"
    by (simp add: ChangeProgramActions_def params_def Let_def)
  from u Op_ChangeProgramActions have "u \<in> set (sent E c ''programactions.cgi'' params)"
    by (simp add: d requests_returning_error requests_errorOf requests_makeRequest)
  from api_op_not_200 [OF this r] Op_ChangeProgramActions show ?thesis
    by (simp add: d)
next
  case Op_GetRoomList
  with u have "u \<in> set (sent E c ''roomlist.cgi'' Map.empty)"
    by (simp add: GetRoomList_def requests_returning requests_decodeBody requests_makeRawRequest)
  from raw_op_not_200 [OF this r] Op_GetRoomList show ?thesis
    by (simp add: GetRoomList_def)
next
  case Op_GetFunctionList
  with u have "u \<in> set (sent E c ''functionlist.cgi'' Map.empty)"
    by (simp add: GetFunctionList_def requests_returning requests_decodeBody requests_makeRawRequest)
  from raw_op_not_200 [OF this r] Op_GetFunctionList show ?thesis
    by (simp add: GetFunctionList_def)
next
  case (Op_GetSystemVariableList showText)
  define params :: "string \<rightharpoonup> string" where "params =
     (let params = Map.empty;
          params = (if showText then params(''text'' \<mapsto> ''true'')
                    else params(''text'' \<mapsto> ''false''))
      in params)"
  have d: "GetSystemVariableList E c showText =
      decodeBody E Decode_SystemVariableListResponse ''failed to parse XML''
           SystemVariableListResponse.SystemVariables
           (makeRawRequest E c ''sysvarlist.cgi'' params)"
    by (simp add: GetSystemVariableList_def params_def Let_def)
  from u Op_GetSystemVariableList have "u \<in> set (sent E c ''sysvarlist.cgi'' params)"
    by (simp add: d requests_returning requests_decodeBody requests_makeRawRequest)
  from raw_op_not_200 [OF this r] Op_GetSystemVariableList show ?thesis
    by (simp add: d)
next
  case (Op_GetSystemVariable iseID showText)
  let ?ps = "[''ise_id'' \<mapsto> iseID, ''text'' \<mapsto> strconv_FormatBool showText]"
  from u Op_GetSystemVariable have "u \<in> set (sent E c ''sysvar.cgi'' ?ps)"
    by (simp add: requests_returning requests_GetSystemVariable)
  from makeRawRequest_not_200 [OF this r] Op_GetSystemVariable show ?thesis
    by (cases showText)
      (simp_all add: GetSystemVariable_def Let_def decodeBody_Inl returning_Inl
        strconv_FormatBool_def)
next
  case (Op_RegisterToken description)
  with u have "u \<in> set (sent E c ''tokenregister.cgi'' [''desc'' \<mapsto> description])"
    by (simp add: RegisterToken_def requests_returning_error requests_errorOf requests_makeRequest)
  from api_op_not_200 [OF this r] Op_RegisterToken show ?thesis
    by (simp add: RegisterToken_def)
next
  case (Op_RevokeToken tokenID)
  with u have "u \<in> set (sent E c ''tokenrevoke.cgi'' [''sid'' \<mapsto> tokenID])"
    by (simp add: RevokeToken_def requests_returning_error requests_errorOf requests_makeRequest)
  from api_op_not_200 [OF this r] Op_RevokeToken show ?thesis
    by (simp add: RevokeToken_def)
next
  case (Op_GetMasterValue deviceIDs requestedNames)
  define params :: "string \<rightharpoonup> string" where "params =
     (let params = Map.empty;
          params = (if length deviceIDs > 0
                    then params(''device_id'' \<mapsto> strings_Join deviceIDs '','') else params);
          params = (if length requestedNames > 0
                    then params(''requested_names'' \<mapsto> strings_Join requestedNames '','')
                    else params)
      in params)"
  have d: "GetMasterValue E c deviceIDs requestedNames =
      decodeBody E Decode_DeviceListResponse ''failed to parse XML'' DeviceListResponse.Devices
           (makeRawRequest E c ''mastervalue.cgi'' params)"
    by (simp add: GetMasterValue_def params_def Let_def)
  from u Op_GetMasterValue have "u \<in> set (sent E c ''mastervalue.cgi'' params)"
    by (simp add: d requests_returning requests_decodeBody requests_makeRawRequest)
  from raw_op_not_200 [OF this r] Op_GetMasterValue show ?thesis
    by (simp add: d)
next
  case (Op_ChangeMasterValue deviceIDs names vals)
  show ?thesis
  proof (cases "length deviceIDs \<noteq> length names \<or> length names \<noteq> length vals")
    case True
    with u Op_ChangeMasterValue show ?thesis
      by (simp add: ChangeMasterValue_def returning_error_def)
  next
    case False
    let ?ps = "[''device_id'' \<mapsto> strings_Join deviceIDs '','', ''name'' \<mapsto> strings_Join names '','',
                ''value'' \<mapsto> strings_Join vals '','']"
    from False have d: "ChangeMasterValue E c deviceIDs names vals =
        errorOf (makeRequest E c ''mastervaluechange.cgi'' ?ps)"
      by (simp add: ChangeMasterValue_def)
    from u Op_ChangeMasterValue have "u \<in> set (sent E c ''mastervaluechange.cgi'' ?ps)"
      by (simp add: d requests_returning_error requests_errorOf requests_makeRequest)
    from api_op_not_200 [OF this r] Op_ChangeMasterValue show ?thesis
      by (simp add: d)
  qed
qed

text \<open>
  C6. Whatever operation is called: when the answer to the request it sent has a status
  code other than 200, the call returns the error of that status and no record, and
  no body was handed to the XML decoder.
\<close>

theorem not_200_is_an_error:
  assumes "u \<in> set (requests (snd (call E c op)))"
    and "HTTPClient c u = Some resp" and "StatusCode resp \<noteq> 200"
  shows "fst (call E c op) = Inl (HTTPError (StatusCode resp)) \<and>
         decoded (snd (call E c op)) = []"
  using call_not_200 [OF assms] by simp

theorem not_200_is_an_error_witness:
  "requests (snd (call sample_Env sample_Client_404 (Op_GetDeviceList [] False False))) \<noteq> [] \<and>
   fst (call sample_Env sample_Client_404 (Op_GetDeviceList [] False False)) =
     Inl (HTTPError 404) \<and>
   decoded (snd (call sample_Env sample_Client_404 (Op_GetDeviceList [] False False))) = []"
proof -
  let ?tr = "snd (call sample_Env sample_Client_404 (Op_GetDeviceList [] False False))"
  let ?resp = "\<lparr>StatusCode = 404, Body = Some ''Not Found''\<rparr>"
  have ne: "requests ?tr \<noteq> []"
    by (simp add: GetDeviceList_def requests_returning requests_decodeBody
        requests_makeRawRequest sent_def sample_Env_def)
  then have 1: "hd (requests ?tr) \<in> set (requests ?tr)"
    by simp
  have 2: "HTTPClient sample_Client_404 (hd (requests ?tr)) = Some ?resp"
    by (simp add: sample_Client_404_def)
  have 3: "StatusCode ?resp \<noteq> 200"
    by simp
  from ne not_200_is_an_error [OF 1 2 3] show ?thesis
    by simp
qed

subsection \<open>Filtering and selecting records\<close>

text \<open>
  C4. \<open>GetStateList\<close> sends its request without the device id. When the body of the
  answer decodes into a response that holds no device whose \<open>IseID\<close> is the given
  non-empty id, the call returns the empty list and no error.
\<close>

theorem absent_id_gives_empty_list:
  assumes "deviceID \<noteq> []"
    and "fst (makeRawRequest E c ''statelist.cgi''
            ((if showInternal then [''show_internal'' \<mapsto> ''1''] else Map.empty) ++
             (if showRemote then [''show_remote'' \<mapsto> ''1''] else Map.empty))) = Inr body"
    and "Decode_StateListResponse E (charsetReader (LowerCase E)) body = Some result"
    and "\<forall>device \<in> set (StateListResponse.Devices result). Device.IseID device \<noteq> deviceID"
  shows "fst (GetStateList E c deviceID showInternal showRemote) = Inr []"
  using assms
  by (cases showInternal; cases showRemote)
    (auto simp: GetStateList_def Let_def decodeBody_def filter_empty_conv split: prod.splits)

theorem absent_id_gives_empty_list_witness:
  "''99999'' \<noteq> [] \<and>
   fst (makeRawRequest sample_Env_reading sample_Client_reading ''statelist.cgi''
          [''show_remote'' \<mapsto> ''1'']) = Inr statelist_doc \<and>
   Decode_StateListResponse sample_Env_reading (charsetReader (LowerCase sample_Env_reading))
     statelist_doc =
     Some \<lparr>StateListResponse.XMLName = \<lparr>Space = [], Local = ''stateList''\<rparr>,
           StateListResponse.Devices = [device_12345, device_67890]\<rparr> \<and>
   Device.IseID device_12345 \<noteq> ''99999'' \<and> Device.IseID device_67890 \<noteq> ''99999'' \<and>
   fst (GetStateList sample_Env_reading sample_Client_reading ''99999'' False True) = Inr [] \<and>
   fst (GetStateList sample_Env_reading sample_Client_reading ''67890'' False True) =
     Inr [device_67890]"
proof -
  let ?result = "\<lparr>StateListResponse.XMLName = \<lparr>Space = [], Local = ''stateList''\<rparr>,
           StateListResponse.Devices = [device_12345, device_67890]\<rparr>"
  have 1: "''99999'' \<noteq> []" by simp
  have raw: "fst (makeRawRequest sample_Env_reading sample_Client_reading ''statelist.cgi''
          [''show_remote'' \<mapsto> ''1'']) = Inr statelist_doc"
    by (simp add: makeRawRequest_def sample_Env_reading_def sample_Env_def
        sample_Client_reading_def sample_Client_def Let_def convertToUTF8_def
        utf8_Valid_statelist_doc)
  then have 2: "fst (makeRawRequest sample_Env_reading sample_Client_reading ''statelist.cgi''
            ((if False then [''show_internal'' \<mapsto> ''1''] else Map.empty) ++
             (if True then [''show_remote'' \<mapsto> ''1''] else Map.empty))) = Inr statelist_doc"
    by simp
  have 3: "Decode_StateListResponse sample_Env_reading
      (charsetReader (LowerCase sample_Env_reading)) statelist_doc = Some ?result"
    by (simp add: sample_Env_reading_def)
  have 4: "\<forall>device \<in> set (StateListResponse.Devices ?result). Device.IseID device \<noteq> ''99999''"
    by (simp add: device_12345_def device_67890_def)
  have 5: "fst (GetStateList sample_Env_reading sample_Client_reading ''67890'' False True) =
     Inr [device_67890]"
    using raw 3
    by (auto simp: GetStateList_def Let_def decodeBody_def device_12345_def device_67890_def
        split: prod.splits)
  from 1 raw 3 4 5 absent_id_gives_empty_list [OF 1 2 3 4] show ?thesis by simp
qed

text \<open>
  C8. When the request of \<open>GetSystemVariable\<close> succeeds and its body decodes, the call
  returns the error \<open>system variable not found\<close> and no record if the decoded response
  holds no system variable, and the first system variable of the response otherwise.
  The operation of \<^verbatim>\<open>homematic/main.go\<close> does the same on its \<open>APIResponse\<close>.
\<close>

theorem first_system_variable_or_error:
  "(fst (makeRawRequest E c ''sysvar.cgi''
          [''ise_id'' \<mapsto> iseID, ''text'' \<mapsto> strconv_FormatBool showText]) = Inr body \<and>
    Decode_SystemVariableListResponse E (charsetReader (LowerCase E)) body = Some result \<longrightarrow>
    fst (GetSystemVariable E c iseID showText) =
      (case SystemVariableListResponse.SystemVariables result of
         [] \<Rightarrow> Inl (Errorf ''system variable not found'')
       | v # _ \<Rightarrow> Inr v)) \<and>
   (fst (makeRequest_main E c ''sysvar.cgi''
          [''ise_id'' \<mapsto> iseID, ''text'' \<mapsto> strconv_FormatBool showText]) = Inr resp \<longrightarrow>
    fst (GetSystemVariable_main E c iseID showText) =
      (case APIResponse.SystemVariables resp of
         [] \<Rightarrow> Inl (Errorf ''system variable not found'')
       | v # _ \<Rightarrow> Inr v))"
  by (cases showText)
    (auto simp: GetSystemVariable_def GetSystemVariable_main_def Let_def decodeBody_def
      strconv_FormatBool_def split: list.splits prod.splits)

theorem first_system_variable_or_error_witness:
  "fst (GetSystemVariable sample_Env_empty sample_Client ''950'' True) =
     Inl (Errorf ''system variable not found'') \<and>
   fst (GetSystemVariable sample_Env sample_Client ''950'' True) = Inr sysvar_950 \<and>
   fst (GetSystemVariable_main sample_Env_empty sample_Client ''950'' True) =
     Inl (Errorf ''system variable not found'') \<and>
   fst (GetSystemVariable_main sample_Env sample_Client ''950'' True) = Inr sysvar_950"
proof -
  let ?ps = "[''ise_id'' \<mapsto> ''950'', ''text'' \<mapsto> strconv_FormatBool True]"
  let ?none = "\<lparr>SystemVariableListResponse.XMLName = \<lparr>Space = [], Local = ''systemVariables''\<rparr>,
           SystemVariableListResponse.SystemVariables = []\<rparr>"
  let ?two = "\<lparr>SystemVariableListResponse.XMLName = \<lparr>Space = [], Local = ''systemVariables''\<rparr>,
           SystemVariableListResponse.SystemVariables = [sysvar_950, sysvar_951]\<rparr>"
  let ?resp0 = "\<lparr>APIResponse.XMLName = \<lparr>Space = [], Local = ''result''\<rparr>, APIResponse.Devices = [],
           APIResponse.Programs = [], APIResponse.Rooms = [], APIResponse.Functions = [],
           APIResponse.SystemVariables = [], APIResponse.DeviceTypes = [], Version = []\<rparr>"
  let ?resp1 = "\<lparr>APIResponse.XMLName = \<lparr>Space = [], Local = ''result''\<rparr>, APIResponse.Devices = [],
           APIResponse.Programs = [], APIResponse.Rooms = [], APIResponse.Functions = [],
           APIResponse.SystemVariables = [sysvar_950], APIResponse.DeviceTypes = [], Version = []\<rparr>"
  have r0: "fst (makeRawRequest sample_Env_empty sample_Client ''sysvar.cgi'' ?ps) = Inr ''<result/>''"
    and r1: "fst (makeRawRequest sample_Env sample_Client ''sysvar.cgi'' ?ps) = Inr ''<result/>''"
    by (simp_all add: makeRawRequest_def sample_Env_def sample_Env_empty_def sample_Client_def
        Let_def convertToUTF8_def)
  have d0: "Decode_SystemVariableListResponse sample_Env_empty
      (charsetReader (LowerCase sample_Env_empty)) ''<result/>'' = Some ?none"
    and d1: "Decode_SystemVariableListResponse sample_Env
      (charsetReader (LowerCase sample_Env)) ''<result/>'' = Some ?two"
    by (simp_all add: sample_Env_def sample_Env_empty_def)
  have m0: "fst (makeRequest_main sample_Env_empty sample_Client ''sysvar.cgi'' ?ps) = Inr ?resp0"
    and m1: "fst (makeRequest_main sample_Env sample_Client ''sysvar.cgi'' ?ps) = Inr ?resp1"
    by (simp_all add: makeRequest_main_def sample_Env_def sample_Env_empty_def sample_Client_def
        Let_def)
  from r0 d0 m0
    first_system_variable_or_error [of sample_Env_empty sample_Client "''950''" True "''<result/>''" ?none ?resp0]
    r1 d1 m1
    first_system_variable_or_error [of sample_Env sample_Client "''950''" True "''<result/>''" ?two ?resp1]
  show ?thesis by simp
qed

subsection \<open>The charset reader\<close>

text \<open>
  C7. \<open>charsetReader\<close> compares the lower-cased name of the charset: for \<open>iso-8859-1\<close>
  and \<open>latin1\<close> it returns a reader that decodes ISO 8859-1, for \<open>windows-1252\<close> and
  \<open>cp1252\<close> a reader that decodes Windows-1252, and for every other name the error
  \<open>unsupported charset\<close> with the name as it was given, and no reader.
\<close>

theorem charsetReader_recognises_latin1_family:
  "(strings_ToLower tbl charset \<in> {''iso-8859-1'', ''latin1''} \<longrightarrow>
      charsetReader tbl charset input = Inr (transform_NewReader input ISO8859_1)) \<and>
   (strings_ToLower tbl charset \<in> {''windows-1252'', ''cp1252''} \<longrightarrow>
      charsetReader tbl charset input = Inr (transform_NewReader input Windows1252)) \<and>
   (strings_ToLower tbl charset \<notin> {''iso-8859-1'', ''latin1'', ''windows-1252'', ''cp1252''} \<longrightarrow>
      charsetReader tbl charset input = Inl (UnsupportedCharset charset))"
  by (auto simp: charsetReader_def Let_def)

theorem charsetReader_recognises_latin1_family_witness:
  "strings_ToLower caseless ''ISO-8859-1'' \<in> {''iso-8859-1'', ''latin1''} \<and>
   charsetReader caseless ''ISO-8859-1'' ''<a/>'' = Inr (transform_NewReader ''<a/>'' ISO8859_1) \<and>
   strings_ToLower caseless ''Windows-1252'' \<in> {''windows-1252'', ''cp1252''} \<and>
   charsetReader caseless ''Windows-1252'' ''<a/>'' = Inr (transform_NewReader ''<a/>'' Windows1252) \<and>
   strings_ToLower caseless ''UTF-16'' \<notin> {''iso-8859-1'', ''latin1'', ''windows-1252'', ''cp1252''} \<and>
   charsetReader caseless ''UTF-16'' ''<a/>'' = Inl (UnsupportedCharset ''UTF-16'')"
proof -
  have l: "strings_ToLower caseless ''ISO-8859-1'' = ''iso-8859-1''"
    "strings_ToLower caseless ''Windows-1252'' = ''windows-1252''"
    "strings_ToLower caseless ''UTF-16'' = ''utf-16''"
    by (simp_all add: strings_ToLower_def char_of_nat_bits)
  from l charsetReader_recognises_latin1_family [of caseless "''ISO-8859-1''" "''<a/>''"] charsetReader_recognises_latin1_family [of caseless "''Windows-1252''" "''<a/>''"]
    charsetReader_recognises_latin1_family [of caseless "''UTF-16''" "''<a/>''"]
  show ?thesis by simp
qed

subsection \<open>Runes at the ends of a string\<close>












































subsection \<open>The version\<close>



end
